theory Spec2Isabelle
  imports Main "HOL-Library.Multiset"
begin

section \<open>The DICOMweb data source: retrieval, caching and image identifiers\<close>

text \<open>
  A shallow embedding of \<^verbatim>\<open>src/extensions/default/src/DicomWebDataSource/index.js\<close>.
  The module keeps two transport clients and a configuration in module-level variables and
  talks to four collaborators that are not part of the file: the authorization-header
  provider, the helper \<^verbatim>\<open>retrieveStudyMetadata\<close>, the metadata provider and the
  \<^verbatim>\<open>DicomMetadataStore\<close> cache. The module state is a record that every operation takes
  and returns; every call that leaves the module is appended to a trace, in program order.
  What a collaborator answers is an argument of the operation that asks.
\<close>

subsection \<open>JavaScript values\<close>

text \<open>
  The values that flow through the file without being inspected, apart from their
  truthiness. Numbers are the integers; the file does no arithmetic on them. An object is
  the list of its own properties.
\<close>

datatype jsval =
    JUndefined
  | JNull
  | JBool bool
  | JNum int
  | JStr string
  | JArr "jsval list"
  | JBuffer "nat list"
  | JObj "(string \<times> jsval) list"

fun truthy :: "jsval \<Rightarrow> bool" where
  "truthy JUndefined = False"
| "truthy JNull = False"
| "truthy (JBool b) = b"
| "truthy (JNum n) = (n \<noteq> 0)"
| "truthy (JStr s) = (s \<noteq> [])"
| "truthy (JArr xs) = True"
| "truthy (JBuffer bs) = True"
| "truthy (JObj kvs) = True"

text \<open>\<^verbatim>\<open>v[0]\<close> for a truthy \<^verbatim>\<open>v\<close>: the first element of an array, the first character
  of a string, the property \<^verbatim>\<open>0\<close> of an object, \<^verbatim>\<open>undefined\<close> on anything else.\<close>

fun js_first :: "jsval \<Rightarrow> jsval" where
  "js_first (JArr []) = JUndefined"
| "js_first (JArr (x # xs)) = x"
| "js_first (JStr []) = JUndefined"
| "js_first (JStr (c # cs)) = JStr [c]"
| "js_first (JObj kvs) = (case map_of kvs ''0'' of None \<Rightarrow> JUndefined | Some v \<Rightarrow> v)"
| "js_first v = JUndefined"

text \<open>Truthiness of an optional string: \<^verbatim>\<open>undefined\<close> and the empty string are falsy.\<close>

fun truthy_str :: "string option \<Rightarrow> bool" where
  "truthy_str None = False"
| "truthy_str (Some s) = (s \<noteq> [])"

subsection \<open>Data model\<close>

type_synonym headers = "(string \<times> string) list"

datatype error =
    ConfigurationError string
  | TransportError string
  | TypeError string

text \<open>The state of a promise once nothing more will happen to it.\<close>

datatype 'a promise = Fulfilled 'a | Rejected error | Pending

record config =
  qidoRoot :: string
  wadoRoot :: string
  enableStudyLazyLoad :: bool
  supportsFuzzyMatching :: bool
  supportsWildcard :: bool
  withCredentials :: bool

text \<open>
  An attribute value of a naturalized dataset that is an object: it may carry a
  \<^verbatim>\<open>BulkDataURI\<close>, an inline \<^verbatim>\<open>Value\<close>, and, once \<^verbatim>\<open>addRetrieveBulkData\<close> has
  run, the method \<^verbatim>\<open>retrieveBulkData\<close>.
\<close>

record attr_value =
  BulkDataURI :: "string option"
  Value :: jsval
  retrieveBulkData :: bool

text \<open>
  The fields of a series summary as \<^verbatim>\<open>_retrieveSeriesMetadataSync\<close> builds it. An absent
  attribute is \<open>None\<close>. A naturalized instance has the same nine attributes and more, so
  it extends the record.
\<close>

record series_summary =
  StudyInstanceUID :: "string option"
  StudyDescription :: "string option"
  SeriesInstanceUID :: string
  SeriesDescription :: "string option"
  SeriesNumber :: "int option"
  SeriesTime :: "string option"
  SOPClassUID :: "string option"
  ProtocolName :: "string option"
  Modality :: "string option"

record dicom_instance = series_summary +
  SOPInstanceUID :: string
  NumberOfFrames :: "int option"
  imageId :: "string option"
  attrs :: "(string \<times> attr_value) list"

record uids =
  uStudyInstanceUID :: string
  uSeriesInstanceUID :: string
  uSOPInstanceUID :: string

record bulk_options =
  multipart :: bool
  oBulkDataURI :: "string option"
  oStudyInstanceUID :: "string option"

text \<open>
  Every call that leaves the module. A transport call records the headers the client
  carries when the call is issued.
\<close>

datatype event =
    QidoSearch "headers option" jsval jsval jsval
  | SeriesInStudy "headers option" string
  | RetrieveStudyMetadata "headers option" string bool jsval jsval jsval bool
  | StoreInstances "headers option" "nat list list"
  | RetrieveBulkData "headers option" bulk_options
  | AddImageIdToUIDs string uids
  | AddSeriesMetadata "series_summary list" bool
  | AddInstances "dicom_instance list" bool
  | GetStudy string bool
  | SetIsLoaded string

text \<open>
  The module state: \<^verbatim>\<open>webConfig\<close> is the configuration the data source was created
  with, \<^verbatim>\<open>dicomWebConfig\<close> the current one; the two header fields are the
  \<^verbatim>\<open>headers\<close> of \<^verbatim>\<open>_qidoDicomWebClient\<close> and \<^verbatim>\<open>_wadoDicomWebClient\<close>.
\<close>

record ds_state =
  webConfig :: config
  dicomWebConfig :: config
  qidoHeaders :: "headers option"
  wadoHeaders :: "headers option"
  trace :: "event list"

definition emit :: "event \<Rightarrow> ds_state \<Rightarrow> ds_state" where
  "emit e s = s\<lparr>trace := trace s @ [e]\<rparr>"

definition emit_all :: "event list \<Rightarrow> ds_state \<Rightarrow> ds_state" where
  "emit_all evs s = s\<lparr>trace := trace s @ evs\<rparr>"

text \<open>The events an operation added, given the state before and the state after.\<close>

definition emitted :: "ds_state \<Rightarrow> ds_state \<Rightarrow> event list" where
  "emitted s s' = drop (length (trace s)) (trace s')"

fun is_RetrieveBulkData :: "event \<Rightarrow> bool" where
  "is_RetrieveBulkData (RetrieveBulkData h opts) = True"
| "is_RetrieveBulkData e = False"

fun is_commit :: "event \<Rightarrow> bool" where
  "is_commit (AddSeriesMetadata xs m) = True"
| "is_commit (AddInstances xs m) = True"
| "is_commit e = False"

subsection \<open>Image identifiers\<close>

text \<open>
  \<^verbatim>\<open>getImageId\<close> lives in \<^verbatim>\<open>./utils/getImageId\<close>, outside the file; it is a parameter.
  Its second argument is the frame: \<open>None\<close> is a call without a frame.
\<close>

type_synonym get_image_id = "dicom_instance \<Rightarrow> int option \<Rightarrow> config \<Rightarrow> string"

definition getImageIdsForInstance ::
  "get_image_id \<Rightarrow> config \<Rightarrow> dicom_instance \<Rightarrow> int option \<Rightarrow> string" where
  "getImageIdsForInstance getImageId cfg inst frame = getImageId inst frame cfg"

record frame_range =
  startIndex :: int
  endIndex :: int

text \<open>What \<^verbatim>\<open>displaySet.getAttribute('multiFrameImagesMapper')\<close> returns: nothing, a
  value that is not a function, or a function.\<close>

datatype mapper_attr =
    NoAttribute
  | NotAFunction jsval
  | MapperFunction "unit \<Rightarrow> frame_range"

text \<open>
  The argument of \<^verbatim>\<open>getImageIdsForDisplaySet\<close>. It is any object: \<^verbatim>\<open>images\<close> may be
  absent, and so may the method \<^verbatim>\<open>getAttribute\<close>, as in the object \<^verbatim>\<open>{ images }\<close> that
  \<^verbatim>\<open>getImageIdsForStudy\<close> passes. When the method is there it maps an attribute name to
  the attribute.
\<close>

record display_set =
  images :: "dicom_instance list option"
  getAttribute :: "(string \<Rightarrow> mapper_attr) option"

text \<open>\<^verbatim>\<open>for (let frame = startIndex; frame <= endIndex; frame++)\<close>, collecting the frames.\<close>

function frame_loop :: "int \<Rightarrow> int \<Rightarrow> int list" where
  "frame_loop frame endIdx =
     (if frame \<le> endIdx then frame # frame_loop (frame + 1) endIdx else [])"
  by pat_completeness auto
termination
  by (relation "measure (\<lambda>(frame, endIdx). nat (endIdx + 1 - frame))") auto

declare frame_loop.simps [simp del]

text \<open>\<^verbatim>\<open>NumberOfFrames > 1\<close>; the comparison is false on \<^verbatim>\<open>undefined\<close>.\<close>

fun more_than_one :: "int option \<Rightarrow> bool" where
  "more_than_one None = False"
| "more_than_one (Some n) = (1 < n)"

text \<open>The body of the \<^verbatim>\<open>forEach\<close> of \<^verbatim>\<open>getImageIdsForDisplaySet\<close>: the identifiers
  pushed for one instance. The mapper is called once for each of the two indices. A loop
  bound that is \<^verbatim>\<open>undefined\<close> fails the loop test at once.\<close>

definition instanceImageIds ::
  "get_image_id \<Rightarrow> config \<Rightarrow> mapper_attr \<Rightarrow> dicom_instance \<Rightarrow> string list" where
  "instanceImageIds getImageId cfg mapper inst =
     (let startIdx = (case mapper of MapperFunction f \<Rightarrow> Some (startIndex (f ())) | _ \<Rightarrow> Some 1);
          endIdx = (case mapper of MapperFunction f \<Rightarrow> Some (endIndex (f ())) | _ \<Rightarrow> NumberOfFrames inst)
      in if more_than_one (NumberOfFrames inst) then
           (case (startIdx, endIdx) of
              (Some a, Some b) \<Rightarrow>
                map (\<lambda>frame. getImageIdsForInstance getImageId cfg inst (Some frame)) (frame_loop a b)
            | _ \<Rightarrow> [])
         else [getImageIdsForInstance getImageId cfg inst None])"

text \<open>
  The \<^verbatim>\<open>forEach\<close> over the images, with the identifiers pushed so far. Every round calls
  \<^verbatim>\<open>displaySet.getAttribute\<close>; on a display set without the method the call is a
  \<^verbatim>\<open>TypeError\<close>, which ends \<^verbatim>\<open>getImageIdsForDisplaySet\<close>.
\<close>

fun collectImageIds ::
  "get_image_id \<Rightarrow> config \<Rightarrow> display_set \<Rightarrow> dicom_instance list \<Rightarrow> string list \<Rightarrow> error + string list" where
  "collectImageIds getImageId cfg displaySet [] imageIds = Inr imageIds"
| "collectImageIds getImageId cfg displaySet (inst # rest) imageIds =
     (case getAttribute displaySet of
        None \<Rightarrow> Inl (TypeError ''displaySet.getAttribute is not a function'')
      | Some attribute \<Rightarrow>
          collectImageIds getImageId cfg displaySet rest
            (imageIds @ instanceImageIds getImageId cfg (attribute ''multiFrameImagesMapper'') inst))"

definition getImageIdsForDisplaySet ::
  "get_image_id \<Rightarrow> config \<Rightarrow> display_set \<Rightarrow> error + string list" where
  "getImageIdsForDisplaySet getImageId cfg displaySet =
     (case images displaySet of
        None \<Rightarrow> Inr []
      | Some imgs \<Rightarrow> collectImageIds getImageId cfg displaySet imgs [])"

subsection \<open>Authorization headers\<close>

text \<open>
  \<^verbatim>\<open>const headers = userAuthenticationService.getAuthorizationHeader();
  if (headers) { client.headers = headers; }\<close>
  The provider's answer is the first argument: \<open>None\<close> is a falsy answer.
\<close>

definition setQidoHeaders :: "headers option \<Rightarrow> ds_state \<Rightarrow> ds_state" where
  "setQidoHeaders hdrs s = (case hdrs of None \<Rightarrow> s | Some h \<Rightarrow> s\<lparr>qidoHeaders := Some h\<rparr>)"

definition setWadoHeaders :: "headers option \<Rightarrow> ds_state \<Rightarrow> ds_state" where
  "setWadoHeaders hdrs s = (case hdrs of None \<Rightarrow> s | Some h \<Rightarrow> s\<lparr>wadoHeaders := Some h\<rparr>)"

subsection \<open>Query operations\<close>

text \<open>
  \<^verbatim>\<open>mapParams\<close>, \<^verbatim>\<open>processResults\<close> and \<^verbatim>\<open>processSeriesResults\<close> come from
  \<^verbatim>\<open>./qido.js\<close> and are parameters; \<open>results\<close> is what the awaited search settles to.
  \<^verbatim>\<open>mapParams\<close> gives an object, the list of its properties, or nothing.
\<close>

definition await_then :: "('a \<Rightarrow> 'b) \<Rightarrow> 'a promise \<Rightarrow> 'b promise" where
  "await_then f p = (case p of Fulfilled v \<Rightarrow> Fulfilled (f v) | Rejected e \<Rightarrow> Rejected e | Pending \<Rightarrow> Pending)"

text \<open>\<^verbatim>\<open>const { studyInstanceUid, seriesInstanceUid, ...mappedParams } = mapParams(...) || {}\<close>\<close>

definition rest_of_params :: "(string \<times> jsval) list option \<Rightarrow> (string \<times> jsval) list" where
  "rest_of_params mapped =
     filter (\<lambda>(k, v). k \<noteq> ''studyInstanceUid'' \<and> k \<noteq> ''seriesInstanceUid'')
       (case mapped of None \<Rightarrow> [] | Some kvs \<Rightarrow> kvs)"

definition query_studies_search ::
  "(jsval \<Rightarrow> bool \<Rightarrow> bool \<Rightarrow> (string \<times> jsval) list option) \<Rightarrow> ('r \<Rightarrow> 'p) \<Rightarrow> headers option \<Rightarrow> jsval
     \<Rightarrow> 'r promise \<Rightarrow> ds_state \<Rightarrow> 'p promise \<times> ds_state" where
  "query_studies_search mapParams processResults hdrs origParams results s =
     (let s1 = setQidoHeaders hdrs s;
          mappedParams = rest_of_params
             (mapParams origParams (supportsFuzzyMatching (dicomWebConfig s1))
                (supportsWildcard (dicomWebConfig s1)));
          s2 = emit (QidoSearch (qidoHeaders s1) JUndefined JUndefined (JObj mappedParams)) s1
      in (await_then processResults results, s2))"

definition query_series_search ::
  "('r \<Rightarrow> 'p) \<Rightarrow> headers option \<Rightarrow> string \<Rightarrow> 'r promise \<Rightarrow> ds_state \<Rightarrow> 'p promise \<times> ds_state" where
  "query_series_search processSeriesResults hdrs studyInstanceUid results s =
     (let s1 = setQidoHeaders hdrs s;
          s2 = emit (SeriesInStudy (qidoHeaders s1) studyInstanceUid) s1
      in (await_then processSeriesResults results, s2))"

text \<open>
  \<^verbatim>\<open>query.instances.search\<close> is not \<^verbatim>\<open>async\<close> and has no \<^verbatim>\<open>return\<close>: the promise that
  \<^verbatim>\<open>qidoSearch.call(...)\<close> gives, here \<open>results\<close>, is dropped.
\<close>

definition query_instances_search ::
  "headers option \<Rightarrow> jsval \<Rightarrow> jsval \<Rightarrow> jsval promise \<Rightarrow> ds_state \<Rightarrow> jsval \<times> ds_state" where
  "query_instances_search hdrs studyInstanceUid queryParameters results s =
     (let s1 = setQidoHeaders hdrs s;
          s2 = emit (QidoSearch (qidoHeaders s1) studyInstanceUid JNull queryParameters) s1
      in (JUndefined, s2))"

subsection \<open>Store\<close>

text \<open>
  The dataset handed to \<^verbatim>\<open>store.dicom\<close>: \<^verbatim>\<open>_meta\<close> may be absent, and within it
  \<^verbatim>\<open>FileMetaInformationVersion\<close>; when that attribute is there the field holds its
  \<^verbatim>\<open>Value\<close>. The rest of the dataset is of no concern to the file.
\<close>

record file_meta =
  FileMetaInformationVersion :: "jsval option"

record 'd dataset =
  meta :: "file_meta option"
  dsSOPClassUID :: jsval
  dsSOPInstanceUID :: jsval
  content :: 'd

record meta_header =
  hFileMetaInformationVersion :: jsval
  MediaStorageSOPClassUID :: jsval
  MediaStorageSOPInstanceUID :: jsval
  TransferSyntaxUID :: string
  ImplementationClassUID :: string
  ImplementationVersionName :: string

text \<open>
  \<^verbatim>\<open>store.dicom\<close>. Reading \<^verbatim>\<open>dataset._meta.FileMetaInformationVersion.Value\<close> is a
  \<^verbatim>\<open>TypeError\<close> when \<^verbatim>\<open>_meta\<close> or the attribute is absent; otherwise the header
  \<^verbatim>\<open>meta\<close> is built. The encoding of the header and the dataset to a part-10 buffer is
  \<^verbatim>\<open>dcmjs\<close>'s: it is the parameter \<open>encode\<close>, which may fail. Either failure ends the call
  before \<^verbatim>\<open>storeInstances\<close> is issued. \<open>stored\<close> is what the awaited \<^verbatim>\<open>storeInstances\<close>
  settles to.
\<close>

definition store_header :: "jsval \<Rightarrow> 'd dataset \<Rightarrow> meta_header" where
  "store_header version ds =
     \<lparr> hFileMetaInformationVersion = version,
       MediaStorageSOPClassUID = dsSOPClassUID ds,
       MediaStorageSOPInstanceUID = dsSOPInstanceUID ds,
       TransferSyntaxUID = ''1.2.840.10008.1.2.1'',
       ImplementationClassUID = ''2.25.270695996825855179949881587723571202391.2.0.0'',
       ImplementationVersionName = ''OHIF-VIEWER-2.0.0'' \<rparr>"

definition store_dicom ::
  "(meta_header \<Rightarrow> 'd dataset \<Rightarrow> error + nat list) \<Rightarrow> headers option \<Rightarrow> 'd dataset \<Rightarrow> unit promise
     \<Rightarrow> ds_state \<Rightarrow> unit promise \<times> ds_state" where
  "store_dicom encode hdrs ds stored s =
     (let s1 = setWadoHeaders hdrs s
      in case meta ds of
           None \<Rightarrow> (Rejected (TypeError ''dataset._meta is undefined''), s1)
         | Some m \<Rightarrow>
             (case FileMetaInformationVersion m of
                None \<Rightarrow> (Rejected (TypeError ''FileMetaInformationVersion is undefined''), s1)
              | Some version \<Rightarrow>
                  (case encode (store_header version ds) ds of
                     Inl e \<Rightarrow> (Rejected e, s1)
                   | Inr part10Buffer \<Rightarrow>
                       (stored, emit (StoreInstances (wadoHeaders s1) [part10Buffer]) s1))))"

subsection \<open>JavaScript objects as ordered dictionaries\<close>

text \<open>
  \<^verbatim>\<open>seriesSummaryMetadata\<close> and \<^verbatim>\<open>instancesPerSeries\<close> are plain objects keyed by
  \<^verbatim>\<open>SeriesInstanceUID\<close>. An object is an association list in insertion order, with distinct
  keys. \<^verbatim>\<open>Object.keys\<close> and \<^verbatim>\<open>Object.values\<close> enumerate the keys that are array indices
  first, in ascending numeric order, then the others in insertion order.
\<close>

definition is_digit :: "char \<Rightarrow> bool" where
  "is_digit c = (48 \<le> (of_char c :: int) \<and> (of_char c :: int) \<le> 57)"

definition int_of_digits :: "string \<Rightarrow> int" where
  "int_of_digits ds = foldl (\<lambda>n c. 10 * n + ((of_char c :: int) - 48)) 0 ds"

text \<open>An array index is the canonical decimal form of an integer from 0 to \<open>2\<^sup>3\<^sup>2 - 2\<close>.\<close>

definition is_array_index :: "string \<Rightarrow> bool" where
  "is_array_index k =
     (k \<noteq> [] \<and> list_all is_digit k \<and> (k = ''0'' \<or> hd k \<noteq> CHR ''0'')
      \<and> int_of_digits k < 4294967295)"

definition own_keys :: "(string \<times> 'v) list \<Rightarrow> string list" where
  "own_keys obj =
     sort_key int_of_digits (filter is_array_index (map fst obj))
     @ filter (\<lambda>k. \<not> is_array_index k) (map fst obj)"

definition obj_get :: "(string \<times> 'v) list \<Rightarrow> string \<Rightarrow> 'v option" where
  "obj_get obj k = map_of obj k"

definition obj_values :: "(string \<times> 'v) list \<Rightarrow> 'v list" where
  "obj_values obj = concat (map (\<lambda>k. case obj_get obj k of None \<Rightarrow> [] | Some v \<Rightarrow> [v]) (own_keys obj))"

text \<open>
  Reading \<^verbatim>\<open>obj[k]\<close> also finds what every object inherits from \<^verbatim>\<open>Object.prototype\<close>:
  for these twelve names the read is truthy on an object that has no such property of its
  own, and what is read is not an array.
\<close>

definition inherited_property :: "string \<Rightarrow> bool" where
  "inherited_property k =
     (k \<in> set [''constructor'', ''__proto__'', ''hasOwnProperty'', ''isPrototypeOf'',
               ''propertyIsEnumerable'', ''toLocaleString'', ''toString'', ''valueOf'',
               ''__defineGetter__'', ''__defineSetter__'', ''__lookupGetter__'',
               ''__lookupSetter__''])"

text \<open>Whether \<^verbatim>\<open>obj[k]\<close> is truthy, for an object whose own properties hold objects.\<close>

definition obj_truthy :: "(string \<times> 'v) list \<Rightarrow> string \<Rightarrow> bool" where
  "obj_truthy obj k = (obj_get obj k \<noteq> None \<or> inherited_property k)"

text \<open>\<^verbatim>\<open>obj[k].push(x)\<close> on an object whose values are arrays.\<close>

definition obj_push :: "(string \<times> 'v list) list \<Rightarrow> string \<Rightarrow> 'v \<Rightarrow> (string \<times> 'v list) list" where
  "obj_push obj k x = map (\<lambda>(k', vs). if k' = k then (k', vs @ [x]) else (k', vs)) obj"

subsection \<open>Eager retrieval\<close>

text \<open>The summary object that the first instance of a series gives.\<close>

definition summary_of :: "dicom_instance \<Rightarrow> series_summary" where
  "summary_of inst =
     \<lparr> StudyInstanceUID = StudyInstanceUID inst,
       StudyDescription = StudyDescription inst,
       SeriesInstanceUID = SeriesInstanceUID inst,
       SeriesDescription = SeriesDescription inst,
       SeriesNumber = SeriesNumber inst,
       SeriesTime = SeriesTime inst,
       SOPClassUID = SOPClassUID inst,
       ProtocolName = ProtocolName inst,
       Modality = Modality inst \<rparr>"

text \<open>
  The identifier of an instance is computed without a frame, written on the instance and
  registered with the metadata provider. Both strategies do these three steps, in this
  order, for every instance.
\<close>

definition assignImageId ::
  "get_image_id \<Rightarrow> string \<Rightarrow> dicom_instance \<Rightarrow> ds_state \<Rightarrow> dicom_instance \<times> ds_state" where
  "assignImageId getImageId studyUID inst s =
     (let iid = getImageIdsForInstance getImageId (dicomWebConfig s) inst None;
          inst1 = inst\<lparr>imageId := Some iid\<rparr>;
          s1 = emit (AddImageIdToUIDs iid
                 \<lparr> uStudyInstanceUID = studyUID,
                   uSeriesInstanceUID = SeriesInstanceUID inst1,
                   uSOPInstanceUID = SOPInstanceUID inst1 \<rparr>) s
      in (inst1, s1))"

text \<open>
  The \<^verbatim>\<open>forEach\<close> of \<^verbatim>\<open>_retrieveSeriesMetadataSync\<close> over the naturalized instances,
  threading the two objects and the state. An object gets the key when \<^verbatim>\<open>!obj[k]\<close>. The
  identifier is assigned and registered, and then \<^verbatim>\<open>instancesPerSeries[k].push\<close> is called:
  when the object has no own \<open>k\<close>, which happens for an inherited name only, what is read has
  no \<^verbatim>\<open>push\<close> and the call is a \<^verbatim>\<open>TypeError\<close> that ends the loop and the retrieval.
\<close>

fun groupInstances ::
  "get_image_id \<Rightarrow> string \<Rightarrow> dicom_instance list
     \<Rightarrow> (string \<times> series_summary) list \<Rightarrow> (string \<times> dicom_instance list) list \<Rightarrow> ds_state
     \<Rightarrow> (error + (string \<times> series_summary) list \<times> (string \<times> dicom_instance list) list) \<times> ds_state" where
  "groupInstances getImageId studyUID [] seriesSummaryMetadata instancesPerSeries s =
     (Inr (seriesSummaryMetadata, instancesPerSeries), s)"
| "groupInstances getImageId studyUID (inst # rest) seriesSummaryMetadata instancesPerSeries s =
     (let k = SeriesInstanceUID inst;
          summ1 = (if \<not> obj_truthy seriesSummaryMetadata k
                   then seriesSummaryMetadata @ [(k, summary_of inst)] else seriesSummaryMetadata);
          per1 = (if \<not> obj_truthy instancesPerSeries k
                  then instancesPerSeries @ [(k, [])] else instancesPerSeries);
          (inst1, s1) = assignImageId getImageId studyUID inst s
      in case obj_get per1 k of
           None \<Rightarrow> (Inl (TypeError ''instancesPerSeries[...].push is not a function''), s1)
         | Some xs \<Rightarrow> groupInstances getImageId studyUID rest summ1 (obj_push per1 k inst1) s1)"

text \<open>\<^verbatim>\<open>Object.keys(instancesPerSeries).forEach(k => DicomMetadataStore.addInstances(...))\<close>\<close>

fun commitSeries :: "(string \<times> dicom_instance list) list \<Rightarrow> bool \<Rightarrow> string list \<Rightarrow> ds_state \<Rightarrow> ds_state" where
  "commitSeries instancesPerSeries madeInClient [] s = s"
| "commitSeries instancesPerSeries madeInClient (k # ks) s =
     commitSeries instancesPerSeries madeInClient ks
       (emit (AddInstances (case obj_get instancesPerSeries k of None \<Rightarrow> [] | Some xs \<Rightarrow> xs) madeInClient) s)"

text \<open>
  \<^verbatim>\<open>_retrieveSeriesMetadataSync\<close>. The helper \<^verbatim>\<open>retrieveStudyMetadata\<close> is outside the
  file: the call is an event, and \<open>data\<close> is what the awaited helper settles to, which is
  a rejection when a fetch behind it fails.
\<close>

definition retrieveSeriesMetadataSync ::
  "('raw \<Rightarrow> dicom_instance) \<Rightarrow> get_image_id \<Rightarrow> string \<Rightarrow> jsval \<Rightarrow> jsval \<Rightarrow> jsval \<Rightarrow> bool \<Rightarrow> bool
     \<Rightarrow> 'raw list promise \<Rightarrow> ds_state \<Rightarrow> unit promise \<times> ds_state" where
  "retrieveSeriesMetadataSync naturalizeDataset getImageId studyUID filters sortCriteria sortFunction
       madeInClient withCreds data s =
     (let s1 = emit (RetrieveStudyMetadata (wadoHeaders s) studyUID False filters sortCriteria
                       sortFunction withCreds) s
      in case data of
           Rejected e \<Rightarrow> (Rejected e, s1)
         | Pending \<Rightarrow> (Pending, s1)
         | Fulfilled raws \<Rightarrow>
             (let naturalizedInstancesMetadata = map naturalizeDataset raws
              in case groupInstances getImageId studyUID naturalizedInstancesMetadata [] [] s1 of
                   (Inl e, s2) \<Rightarrow> (Rejected e, s2)
                 | (Inr (seriesSummaryMetadata, instancesPerSeries), s2) \<Rightarrow>
                     (let seriesMetadata = obj_values seriesSummaryMetadata;
                          s3 = emit (AddSeriesMetadata seriesMetadata madeInClient) s2;
                          s4 = commitSeries instancesPerSeries madeInClient (own_keys instancesPerSeries) s3
                      in (Fulfilled (), s4))))"

subsection \<open>Bulk data\<close>

text \<open>
  \<^verbatim>\<open>addRetrieveBulkData\<close>: naturalize, then give the method to every attribute value with
  a truthy \<^verbatim>\<open>BulkDataURI\<close> and a falsy \<^verbatim>\<open>Value\<close>. \<^verbatim>\<open>naturalizeDataset\<close> is \<^verbatim>\<open>dcmjs\<close>'s
  and is a parameter.
\<close>

definition attachRetrieveBulkData :: "attr_value \<Rightarrow> attr_value" where
  "attachRetrieveBulkData v =
     (if truthy_str (BulkDataURI v) \<and> \<not> truthy (Value v) then v\<lparr>retrieveBulkData := True\<rparr> else v)"

definition addRetrieveBulkData :: "('raw \<Rightarrow> dicom_instance) \<Rightarrow> 'raw \<Rightarrow> dicom_instance" where
  "addRetrieveBulkData naturalizeDataset inst =
     (let naturalized = naturalizeDataset inst
      in naturalized\<lparr>attrs := map (\<lambda>(key, v). (key, attachRetrieveBulkData v)) (attrs naturalized)\<rparr>)"

text \<open>\<^verbatim>\<open>(val && val[0]) || undefined\<close>\<close>

definition first_or_undefined :: "jsval \<Rightarrow> jsval" where
  "first_or_undefined val = (if truthy val \<and> truthy (js_first val) then js_first val else JUndefined)"

text \<open>
  One invocation of the method \<^verbatim>\<open>value.retrieveBulkData\<close> given to an attribute value:
  \<open>owner\<close> is \<^verbatim>\<open>naturalized.StudyInstanceUID\<close> of the instance the value belongs to, and
  \<open>response\<close> is what \<^verbatim>\<open>_qidoDicomWebClient.retrieveBulkData(options)\<close> settles to. The
  body reads neither \<^verbatim>\<open>value.Value\<close> nor the authorization-header provider. Calling the
  method on a value that has none is a \<^verbatim>\<open>TypeError\<close>.
\<close>

definition call_retrieveBulkData ::
  "string option \<Rightarrow> jsval promise \<Rightarrow> attr_value \<times> ds_state \<Rightarrow> jsval promise \<times> attr_value \<times> ds_state" where
  "call_retrieveBulkData owner response vs =
     (let (v, s) = vs in
      if \<not> retrieveBulkData v then (Rejected (TypeError ''retrieveBulkData is not a function''), v, s)
      else
        (let options = \<lparr> multipart = False, oBulkDataURI = BulkDataURI v, oStudyInstanceUID = owner \<rparr>;
             s1 = emit (RetrieveBulkData (qidoHeaders s) options) s
         in case response of
              Fulfilled val \<Rightarrow>
                (let ret = first_or_undefined val in (Fulfilled ret, v\<lparr>Value := ret\<rparr>, s1))
            | Rejected e \<Rightarrow> (Rejected e, v, s1)
            | Pending \<Rightarrow> (Pending, v, s1)))"

text \<open>
  \<^verbatim>\<open>instance[key].retrieveBulkData()\<close> on a naturalized instance: the method closes over
  the attribute value and over the instance, whose \<^verbatim>\<open>StudyInstanceUID\<close> it reads when it
  runs; what it writes is written on the attribute of that instance.
\<close>

definition invoke_retrieveBulkData ::
  "string \<Rightarrow> jsval promise \<Rightarrow> dicom_instance \<times> ds_state \<Rightarrow> jsval promise \<times> dicom_instance \<times> ds_state" where
  "invoke_retrieveBulkData key response st =
     (let (inst, s) = st in
      case map_of (attrs inst) key of
        None \<Rightarrow> (Rejected (TypeError ''instance[key] is undefined''), inst, s)
      | Some v \<Rightarrow>
          (let (ret, v1, s1) = call_retrieveBulkData (StudyInstanceUID inst) response (v, s)
           in (ret, inst\<lparr>attrs := map (\<lambda>(k, w). if k = key then (k, v1) else (k, w)) (attrs inst)\<rparr>, s1)))"

subsection \<open>Lazy retrieval\<close>

text \<open>The \<^verbatim>\<open>forEach\<close> of \<^verbatim>\<open>storeInstances\<close> over the naturalized instances.\<close>

fun assignImageIds ::
  "get_image_id \<Rightarrow> string \<Rightarrow> dicom_instance list \<Rightarrow> ds_state \<Rightarrow> dicom_instance list \<times> ds_state" where
  "assignImageIds getImageId studyUID [] s = ([], s)"
| "assignImageIds getImageId studyUID (inst # rest) s =
     (let (inst1, s1) = assignImageId getImageId studyUID inst s;
          (rest1, s2) = assignImageIds getImageId studyUID rest s1
      in (inst1 # rest1, s2))"

definition storeInstances ::
  "('raw \<Rightarrow> dicom_instance) \<Rightarrow> get_image_id \<Rightarrow> string \<Rightarrow> bool \<Rightarrow> 'raw list \<Rightarrow> ds_state \<Rightarrow> ds_state" where
  "storeInstances naturalizeDataset getImageId studyUID madeInClient instances s =
     (let naturalizedInstances = map (addRetrieveBulkData naturalizeDataset) instances;
          (naturalizedInstances1, s1) = assignImageIds getImageId studyUID naturalizedInstances s
      in emit (AddInstances naturalizedInstances1 madeInClient) s1)"

text \<open>
  \<^verbatim>\<open>setSuccessFlag\<close>: \<open>found\<close> tells whether \<^verbatim>\<open>DicomMetadataStore.getStudy\<close> returns a study
  object; on \<^verbatim>\<open>undefined\<close> the assignment \<^verbatim>\<open>study.isLoaded = true\<close> is a \<^verbatim>\<open>TypeError\<close>.
\<close>

definition setSuccessFlag :: "bool \<Rightarrow> string \<Rightarrow> bool \<Rightarrow> ds_state \<Rightarrow> unit promise \<times> ds_state" where
  "setSuccessFlag found studyUID madeInClient s =
     (let s1 = emit (GetStudy studyUID madeInClient) s
      in if found then (Fulfilled (), emit (SetIsLoaded studyUID) s1)
         else (Rejected (TypeError ''study is undefined''), s1))"

text \<open>
  The per-series promises and their \<^verbatim>\<open>then\<close> callbacks. Each promise of
  \<^verbatim>\<open>seriesPromises\<close> is given by what it settles to, \<open>Inr instances\<close> or \<open>Inl error\<close>. The
  order in which they settle is the environment's: \<open>order\<close> lists the indices of the promises
  in the order of settlement, and a promise whose index never occurs stays pending. A
  callback runs to its end once its promise is fulfilled; a promise settles once, so a
  repeated index, like an index out of range, is skipped. The result is the list of the
  promises settled so far and the state.
\<close>

fun settle ::
  "('raw \<Rightarrow> dicom_instance) \<Rightarrow> get_image_id \<Rightarrow> string \<Rightarrow> bool \<Rightarrow> (error + 'raw list) list
     \<Rightarrow> nat list \<Rightarrow> nat list \<Rightarrow> ds_state \<Rightarrow> nat list \<times> ds_state" where
  "settle naturalizeDataset getImageId studyUID madeInClient seriesPromises [] settled s = (settled, s)"
| "settle naturalizeDataset getImageId studyUID madeInClient seriesPromises (i # order) settled s =
     (if i < length seriesPromises \<and> i \<notin> set settled then
        (case seriesPromises ! i of
           Inr instances \<Rightarrow>
             settle naturalizeDataset getImageId studyUID madeInClient seriesPromises order (settled @ [i])
               (storeInstances naturalizeDataset getImageId studyUID madeInClient instances s)
         | Inl e \<Rightarrow>
             settle naturalizeDataset getImageId studyUID madeInClient seriesPromises order (settled @ [i]) s)
      else settle naturalizeDataset getImageId studyUID madeInClient seriesPromises order settled s)"

text \<open>\<^verbatim>\<open>await Promise.allSettled(seriesDeliveredPromises)\<close> resumes once every promise has settled.\<close>

definition allSettled :: "'a list \<Rightarrow> nat list \<Rightarrow> bool" where
  "allSettled seriesPromises settled = list_all (\<lambda>i. i \<in> set settled) [0..<length seriesPromises]"

text \<open>
  \<^verbatim>\<open>_retrieveSeriesMetadataAsync\<close>. \<open>fetched\<close> is what the awaited \<^verbatim>\<open>retrieveStudyMetadata\<close>
  settles to: the pair of \<^verbatim>\<open>preLoadData\<close> and \<^verbatim>\<open>promises\<close>. The result is \<open>Pending\<close> when
  the function never resumes from an \<^verbatim>\<open>await\<close>.
\<close>

definition retrieveSeriesMetadataAsync ::
  "('raw \<Rightarrow> dicom_instance) \<Rightarrow> get_image_id \<Rightarrow> bool \<Rightarrow> string \<Rightarrow> jsval \<Rightarrow> jsval \<Rightarrow> jsval \<Rightarrow> bool \<Rightarrow> bool
     \<Rightarrow> (series_summary list \<times> (error + 'raw list) list) promise \<Rightarrow> nat list
     \<Rightarrow> ds_state \<Rightarrow> unit promise \<times> ds_state" where
  "retrieveSeriesMetadataAsync naturalizeDataset getImageId found studyUID filters sortCriteria
       sortFunction madeInClient withCreds fetched order s =
     (let s1 = emit (RetrieveStudyMetadata (wadoHeaders s) studyUID True filters sortCriteria
                       sortFunction withCreds) s
      in case fetched of
           Rejected e \<Rightarrow> (Rejected e, s1)
         | Pending \<Rightarrow> (Pending, s1)
         | Fulfilled (preLoadData, seriesPromises) \<Rightarrow>
             (let seriesSummaryMetadata =
                    map (\<lambda>aSeries. aSeries\<lparr>StudyInstanceUID := Some studyUID\<rparr>) preLoadData;
                  s2 = emit (AddSeriesMetadata seriesSummaryMetadata madeInClient) s1;
                  (settled, s3) = settle naturalizeDataset getImageId studyUID madeInClient
                                    seriesPromises order [] s2
              in if allSettled seriesPromises settled
                 then setSuccessFlag found studyUID madeInClient s3
                 else (Pending, s3)))"

subsection \<open>Series metadata retrieval\<close>

text \<open>
  The argument object of \<^verbatim>\<open>retrieve.series.metadata\<close>; an absent \<^verbatim>\<open>madeInClient\<close> or
  \<^verbatim>\<open>withCredentials\<close> takes its default.
\<close>

record request =
  reqStudyInstanceUID :: "string option"
  reqFilters :: jsval
  reqSortCriteria :: jsval
  reqSortFunction :: jsval
  reqMadeInClient :: "bool option"
  reqWithCredentials :: "bool option"

text \<open>What the collaborators answer during one call of \<^verbatim>\<open>retrieve.series.metadata\<close>.\<close>

record 'raw answers =
  authorizationHeader :: "headers option"
  studyData :: "'raw list promise"
  seriesData :: "(series_summary list \<times> (error + 'raw list) list) promise"
  settleOrder :: "nat list"
  studyFound :: bool

definition series_metadata ::
  "('raw \<Rightarrow> dicom_instance) \<Rightarrow> get_image_id \<Rightarrow> 'raw answers \<Rightarrow> request \<Rightarrow> ds_state
     \<Rightarrow> unit promise \<times> ds_state" where
  "series_metadata naturalizeDataset getImageId env req s =
     (let madeInClient = (case reqMadeInClient req of None \<Rightarrow> False | Some b \<Rightarrow> b);
          withCreds = (case reqWithCredentials req of None \<Rightarrow> withCredentials (webConfig s) | Some b \<Rightarrow> b);
          s1 = setWadoHeaders (authorizationHeader env) s
      in case reqStudyInstanceUID req of
           None \<Rightarrow>
             (Rejected (ConfigurationError ''Unable to query for SeriesMetadata without StudyInstanceUID''), s1)
         | Some studyUID \<Rightarrow>
             if studyUID = [] then
               (Rejected (ConfigurationError ''Unable to query for SeriesMetadata without StudyInstanceUID''), s1)
             else if enableStudyLazyLoad (dicomWebConfig s1) then
               retrieveSeriesMetadataAsync naturalizeDataset getImageId (studyFound env) studyUID
                 (reqFilters req) (reqSortCriteria req) (reqSortFunction req) madeInClient withCreds
                 (seriesData env) (settleOrder env) s1
             else
               retrieveSeriesMetadataSync naturalizeDataset getImageId studyUID
                 (reqFilters req) (reqSortCriteria req) (reqSortFunction req) madeInClient withCreds
                 (studyData env) s1)"

subsection \<open>Helpers for stating the properties\<close>

text \<open>What \<^verbatim>\<open>assignImageId\<close> writes on an instance and tells the metadata provider.\<close>

definition withImageId :: "get_image_id \<Rightarrow> config \<Rightarrow> dicom_instance \<Rightarrow> dicom_instance" where
  "withImageId getImageId cfg inst = inst\<lparr>imageId := Some (getImageId inst None cfg)\<rparr>"

definition registration :: "get_image_id \<Rightarrow> config \<Rightarrow> string \<Rightarrow> dicom_instance \<Rightarrow> event" where
  "registration getImageId cfg studyUID inst =
     AddImageIdToUIDs (getImageId inst None cfg)
       \<lparr> uStudyInstanceUID = studyUID,
         uSeriesInstanceUID = SeriesInstanceUID inst,
         uSOPInstanceUID = SOPInstanceUID inst \<rparr>"

text \<open>The headers a client carries after the provider's answer has been looked at.\<close>

definition effective_headers :: "headers option \<Rightarrow> headers option \<Rightarrow> headers option" where
  "effective_headers answer previous = (case answer of None \<Rightarrow> previous | Some h \<Rightarrow> Some h)"

text \<open>
  What the loop of \<open>groupInstances\<close> computes when no key is an inherited name: it then runs
  to its end, and a key is added exactly when the object does not have it.
\<close>

fun grouped ::
  "get_image_id \<Rightarrow> string \<Rightarrow> dicom_instance list
     \<Rightarrow> (string \<times> series_summary) list \<Rightarrow> (string \<times> dicom_instance list) list \<Rightarrow> ds_state
     \<Rightarrow> (string \<times> series_summary) list \<times> (string \<times> dicom_instance list) list \<times> ds_state" where
  "grouped getImageId studyUID [] summ per s = (summ, per, s)"
| "grouped getImageId studyUID (inst # rest) summ per s =
     (let k = SeriesInstanceUID inst;
          summ1 = (if obj_get summ k = None then summ @ [(k, summary_of inst)] else summ);
          per1 = (if obj_get per k = None then per @ [(k, [])] else per);
          (inst1, s1) = assignImageId getImageId studyUID inst s;
          per2 = obj_push per1 k inst1
      in grouped getImageId studyUID rest summ1 per2 s1)"

text \<open>\<^verbatim>\<open>obj[k]\<close> on an object of arrays, with the empty array for a missing key.\<close>

definition per_lookup :: "(string \<times> 'v list) list \<Rightarrow> string \<Rightarrow> 'v list" where
  "per_lookup per k = (case obj_get per k of None \<Rightarrow> [] | Some xs \<Rightarrow> xs)"

text \<open>The indices that \<open>settle\<close> takes from an order of settlement, in that order.\<close>

fun deliveries :: "nat \<Rightarrow> nat list \<Rightarrow> nat list \<Rightarrow> nat list" where
  "deliveries n [] settled = []"
| "deliveries n (i # order) settled =
     (if i < n \<and> i \<notin> set settled then i # deliveries n order (settled @ [i])
      else deliveries n order settled)"

text \<open>The events of one series' unit of work: nothing when its promise is rejected.\<close>

definition unit_events ::
  "('raw \<Rightarrow> dicom_instance) \<Rightarrow> get_image_id \<Rightarrow> config \<Rightarrow> string \<Rightarrow> bool \<Rightarrow> error + 'raw list \<Rightarrow> event list" where
  "unit_events naturalizeDataset getImageId cfg studyUID madeInClient p =
     (case p of
        Inl e \<Rightarrow> []
      | Inr instances \<Rightarrow>
          map (registration getImageId cfg studyUID) (map (addRetrieveBulkData naturalizeDataset) instances)
          @ [AddInstances (map (withImageId getImageId cfg) (map (addRetrieveBulkData naturalizeDataset) instances))
               madeInClient])"

text \<open>What a fulfilled series' unit of work hands to \<^verbatim>\<open>addInstances\<close>.\<close>

definition committed ::
  "('raw \<Rightarrow> dicom_instance) \<Rightarrow> get_image_id \<Rightarrow> config \<Rightarrow> 'raw list \<Rightarrow> dicom_instance list" where
  "committed naturalizeDataset getImageId cfg instances =
     map (withImageId getImageId cfg) (map (addRetrieveBulkData naturalizeDataset) instances)"

fun is_fulfilled :: "'e + 'a \<Rightarrow> bool" where
  "is_fulfilled (Inr x) = True"
| "is_fulfilled (Inl e) = False"

text \<open>
  An instance of a commit is covered by the events before the commit when it carries an
  image identifier and that identifier has been registered for the instance's identifiers.
\<close>

definition registered_in :: "string \<Rightarrow> event list \<Rightarrow> dicom_instance \<Rightarrow> bool" where
  "registered_in studyUID evs x =
     (case imageId x of
        None \<Rightarrow> False
      | Some iid \<Rightarrow>
          AddImageIdToUIDs iid
            \<lparr> uStudyInstanceUID = studyUID,
              uSeriesInstanceUID = SeriesInstanceUID x,
              uSOPInstanceUID = SOPInstanceUID x \<rparr> \<in> set evs)"

fun commits_registered :: "string \<Rightarrow> event list \<Rightarrow> event list \<Rightarrow> bool" where
  "commits_registered studyUID before [] = True"
| "commits_registered studyUID before (AddInstances xs m # evs) =
     (list_all (registered_in studyUID before) xs
      \<and> commits_registered studyUID (before @ [AddInstances xs m]) evs)"
| "commits_registered studyUID before (e # evs) = commits_registered studyUID (before @ [e]) evs"

subsection \<open>Example data\<close>

definition example_config :: config where
  "example_config =
     \<lparr> qidoRoot = ''https://pacs/qido'', wadoRoot = ''https://pacs/wado'', enableStudyLazyLoad = True,
       supportsFuzzyMatching = False, supportsWildcard = False, withCredentials = False \<rparr>"

definition example_instance :: "string \<Rightarrow> string \<Rightarrow> int \<Rightarrow> dicom_instance" where
  "example_instance series sop frames =
     \<lparr> StudyInstanceUID = Some ''1.2.3'', StudyDescription = None, SeriesInstanceUID = series,
       SeriesDescription = None, SeriesNumber = None, SeriesTime = None, SOPClassUID = None,
       ProtocolName = None, Modality = Some ''CT'', SOPInstanceUID = sop,
       NumberOfFrames = Some frames, imageId = None, attrs = [] \<rparr>"

definition example_getImageId :: get_image_id where
  "example_getImageId inst frame cfg =
     ''wadors:'' @ wadoRoot cfg @ ''/'' @ SOPInstanceUID inst
       @ (case frame of None \<Rightarrow> [] | Some f \<Rightarrow> ''/frames/'' @ replicate (nat f) CHR ''I'')"

definition example_attribute :: attr_value where
  "example_attribute =
     \<lparr> BulkDataURI = Some ''https://pacs/wado/studies/1.2.3/bulkdata/1'', Value = JUndefined,
       retrieveBulkData = False \<rparr>"

definition example_bulk_instance :: dicom_instance where
  "example_bulk_instance =
     (example_instance ''S1'' ''S1.1'' 1)\<lparr>attrs := [(''EncapsulatedDocument'', example_attribute)]\<rparr>"

definition example_dataset :: "unit dataset" where
  "example_dataset =
     \<lparr> meta = Some \<lparr>FileMetaInformationVersion = Some (JArr [JNum 0, JNum 1])\<rparr>,
       dsSOPClassUID = JStr ''1.2.840.10008.5.1.4.1.1.88.33'',
       dsSOPInstanceUID = JStr ''1.2.3.9'',
       content = () \<rparr>"

definition example_encode :: "meta_header \<Rightarrow> unit dataset \<Rightarrow> error + nat list" where
  "example_encode header ds = Inr [68, 73, 67, 77]"

definition example_request :: "string option \<Rightarrow> request" where
  "example_request studyUID =
     \<lparr> reqStudyInstanceUID = studyUID, reqFilters = JUndefined, reqSortCriteria = JUndefined,
       reqSortFunction = JUndefined, reqMadeInClient = None, reqWithCredentials = None \<rparr>"

definition example_answers :: "headers option \<Rightarrow> dicom_instance answers" where
  "example_answers hdrs =
     \<lparr> authorizationHeader = hdrs,
       studyData = Fulfilled [example_instance ''S1'' ''S1.1'' 1],
       seriesData = Fulfilled ([summary_of (example_instance ''S1'' ''S1.1'' 1)],
                               [Inr [example_instance ''S1'' ''S1.1'' 1]]),
       settleOrder = [0],
       studyFound = True \<rparr>"

definition example_state :: ds_state where
  "example_state =
     \<lparr> webConfig = example_config, dicomWebConfig = example_config,
       qidoHeaders = Some [(''Authorization'', ''Bearer old'')],
       wadoHeaders = Some [(''Authorization'', ''Bearer old'')],
       trace = [] \<rparr>"

section \<open>Properties\<close>

subsection \<open>The events of the operations\<close>

lemma emit_is_emit_all: "emit e s = emit_all [e] s"
  by (simp add: emit_def emit_all_def)

lemma emit_all_emit_all: "emit_all b (emit_all a s) = emit_all (a @ b) s"
  by (simp add: emit_all_def)

lemma emit_all_Nil: "emit_all [] s = s"
  by (simp add: emit_all_def)

lemma emit_all_fields:
  "dicomWebConfig (emit_all evs s) = dicomWebConfig s"
  "webConfig (emit_all evs s) = webConfig s"
  "qidoHeaders (emit_all evs s) = qidoHeaders s"
  "wadoHeaders (emit_all evs s) = wadoHeaders s"
  "trace (emit_all evs s) = trace s @ evs"
  by (simp_all add: emit_all_def)

lemma emitted_emit_all: "emitted s (emit_all evs s) = evs"
  by (simp add: emitted_def emit_all_def)

lemma assignImageId_eq:
  "assignImageId g uid inst s =
     (withImageId g (dicomWebConfig s) inst, emit_all [registration g (dicomWebConfig s) uid inst] s)"
  by (simp add: assignImageId_def withImageId_def registration_def getImageIdsForInstance_def
      Let_def emit_is_emit_all)

lemma assignImageIds_eq:
  "assignImageIds g uid xs s =
     (map (withImageId g (dicomWebConfig s)) xs,
      emit_all (map (registration g (dicomWebConfig s) uid) xs) s)"
  by (induction xs arbitrary: s)
     (simp_all add: assignImageId_eq emit_all_Nil emit_all_fields emit_all_emit_all)

lemma storeInstances_eq:
  "storeInstances nd g uid mic raws s =
     emit_all (unit_events nd g (dicomWebConfig s) uid mic (Inr raws)) s"
  by (simp add: storeInstances_def assignImageIds_eq unit_events_def emit_is_emit_all
      emit_all_emit_all)

lemma settle_eq:
  "settle nd g uid mic ps order settled s =
     (settled @ deliveries (length ps) order settled,
      emit_all (concat (map (\<lambda>i. unit_events nd g (dicomWebConfig s) uid mic (ps ! i))
                          (deliveries (length ps) order settled))) s)"
proof (induction order arbitrary: settled s)
  case Nil
  show ?case by (simp add: emit_all_Nil)
next
  case (Cons i order)
  show ?case
  proof (cases "i < length ps \<and> i \<notin> set settled")
    case False
    then show ?thesis using Cons.IH [of settled s] by auto
  next
    case True
    show ?thesis
    proof (cases "ps ! i")
      case (Inl e)
      with True show ?thesis
        using Cons.IH [of "settled @ [i]" s] by (simp add: unit_events_def)
    next
      case (Inr raws)
      with True show ?thesis
        using Cons.IH [of "settled @ [i]" "storeInstances nd g uid mic raws s"]
        by (simp add: storeInstances_eq emit_all_fields emit_all_emit_all)
    qed
  qed
qed

lemma set_deliveries:
  "set (deliveries n order settled) = {i \<in> set order. i < n \<and> i \<notin> set settled}"
  by (induction order arbitrary: settled) auto

lemma distinct_deliveries: "distinct (deliveries n order settled)"
  by (induction order arbitrary: settled) (auto simp: set_deliveries)

lemma allSettled_deliveries:
  "allSettled ps (deliveries (length ps) order []) \<longleftrightarrow> (\<forall>i<length ps. i \<in> set order)"
  by (auto simp: allSettled_def list_all_iff set_deliveries)

lemma async_run:
  "retrieveSeriesMetadataAsync nd g found uid f sc sf mic wc (Fulfilled (pre, ps)) order s =
     (if (\<forall>i<length ps. i \<in> set order)
      then (if found then Fulfilled () else Rejected (TypeError ''study is undefined''))
      else Pending,
      emit_all
        ([RetrieveStudyMetadata (wadoHeaders s) uid True f sc sf wc,
          AddSeriesMetadata (map (\<lambda>aSeries. aSeries\<lparr>StudyInstanceUID := Some uid\<rparr>) pre) mic]
         @ concat (map (\<lambda>i. unit_events nd g (dicomWebConfig s) uid mic (ps ! i))
                     (deliveries (length ps) order []))
         @ (if (\<forall>i<length ps. i \<in> set order)
            then GetStudy uid mic # (if found then [SetIsLoaded uid] else []) else [])) s)"
  by (simp add: retrieveSeriesMetadataAsync_def settle_eq setSuccessFlag_def Let_def
      emit_is_emit_all emit_all_emit_all emit_all_fields allSettled_deliveries)

lemma unit_events_no_flag: "SetIsLoaded u \<notin> set (unit_events nd g cfg uid mic p)"
  by (cases p) (auto simp: unit_events_def registration_def)

lemma unit_events_commit:
  "AddInstances xs m \<in> set (unit_events nd g cfg uid mic p) \<longleftrightarrow>
     (\<exists>raws. p = Inr raws \<and> xs = committed nd g cfg raws \<and> m = mic)"
  by (cases p) (auto simp: unit_events_def registration_def committed_def)

lemma unit_events_no_summary: "AddSeriesMetadata xs m \<notin> set (unit_events nd g cfg uid mic p)"
  by (cases p) (auto simp: unit_events_def registration_def)

lemma filter_commit_unit_events:
  "filter is_commit (unit_events nd g cfg uid mic p) =
     (case p of Inl e \<Rightarrow> [] | Inr raws \<Rightarrow> [AddInstances (committed nd g cfg raws) mic])"
  by (cases p) (simp_all add: unit_events_def committed_def registration_def filter_empty_conv)

lemma filter_commit_units:
  "filter is_commit (concat (map (\<lambda>i. unit_events nd g cfg uid mic (ps ! i)) ds)) =
     map (\<lambda>i. AddInstances (case ps ! i of Inl e \<Rightarrow> [] | Inr raws \<Rightarrow> committed nd g cfg raws) mic)
       (filter (\<lambda>i. is_fulfilled (ps ! i)) ds)"
proof (induction ds)
  case Nil
  show ?case by simp
next
  case (Cons i ds)
  then show ?case
    by (cases "ps ! i") (simp_all add: filter_commit_unit_events)
qed

subsection \<open>The grouping of the eager strategy\<close>

lemma obj_get_push:
  "obj_get (obj_push per k x) k' =
     (if k' = k then map_option (\<lambda>vs. vs @ [x]) (obj_get per k) else obj_get per k')"
  unfolding obj_get_def obj_push_def by (induction per) auto

lemma keys_obj_push: "map fst (obj_push per k x) = map fst per"
  unfolding obj_push_def by (induction per) auto

lemma obj_get_None_iff: "obj_get obj k = None \<longleftrightarrow> k \<notin> fst ` set obj"
  by (simp add: obj_get_def map_of_eq_None_iff)

lemma keys_obj_push_set: "fst ` set (obj_push per k x) = fst ` set per"
  using keys_obj_push [of per k x] by (metis set_map)

lemma add_key_set:
  "fst ` set (if obj_get obj k = None then obj @ [(k, v)] else obj) = insert k (fst ` set obj)"
  by (auto simp: obj_get_None_iff)

lemma add_key_distinct:
  "distinct (map fst obj) \<Longrightarrow> distinct (map fst (if obj_get obj k = None then obj @ [(k, v)] else obj))"
  by (auto simp: obj_get_None_iff)

lemma obj_get_append:
  "obj_get (obj @ [(k, v)]) k' =
     (case obj_get obj k' of Some w \<Rightarrow> Some w | None \<Rightarrow> if k' = k then Some v else None)"
  by (simp add: obj_get_def map_add_def split: option.splits)

lemma withImageId_series [simp]:
  "SeriesInstanceUID (withImageId g cfg x) = SeriesInstanceUID x"
  "SOPInstanceUID (withImageId g cfg x) = SOPInstanceUID x"
  "imageId (withImageId g cfg x) = Some (g x None cfg)"
  by (simp_all add: withImageId_def)

lemma group_state:
  "snd (snd (grouped g uid xs summ per s)) =
     emit_all (map (registration g (dicomWebConfig s) uid) xs) s"
  by (induction xs arbitrary: summ per s)
     (simp_all add: assignImageId_eq Let_def emit_all_fields emit_all_emit_all emit_all_Nil)

lemma group_summ_keys:
  "fst ` set (fst (grouped g uid xs summ per s)) =
     fst ` set summ \<union> SeriesInstanceUID ` set xs"
proof (induction xs arbitrary: summ per s)
  case Nil
  show ?case by simp
next
  case (Cons x xs)
  show ?case
    by (simp add: assignImageId_eq Let_def Cons.IH add_key_set del: set_append)
qed

lemma group_summ_distinct:
  "distinct (map fst summ) \<Longrightarrow> distinct (map fst (fst (grouped g uid xs summ per s)))"
proof (induction xs arbitrary: summ per s)
  case Nil
  then show ?case by simp
next
  case (Cons x xs)
  show ?case
    using Cons.IH [OF add_key_distinct [OF Cons.prems]]
    by (simp add: assignImageId_eq Let_def)
qed

lemma group_summ_get:
  "obj_get (fst (grouped g uid xs summ per s)) k =
     (case obj_get summ k of
        Some v \<Rightarrow> Some v
      | None \<Rightarrow> map_option summary_of (find (\<lambda>x. SeriesInstanceUID x = k) xs))"
proof (induction xs arbitrary: summ per s)
  case Nil
  show ?case by (simp split: option.splits)
next
  case (Cons x xs)
  show ?case
    by (simp add: assignImageId_eq Let_def Cons.IH obj_get_append split: option.splits)
qed

lemma group_per_keys:
  "fst ` set (fst (snd (grouped g uid xs summ per s))) =
     fst ` set per \<union> SeriesInstanceUID ` set xs"
proof (induction xs arbitrary: summ per s)
  case Nil
  show ?case by simp
next
  case (Cons x xs)
  show ?case
    by (simp add: assignImageId_eq Let_def Cons.IH keys_obj_push_set add_key_set del: set_append)
qed

lemma group_per_distinct:
  "distinct (map fst per) \<Longrightarrow> distinct (map fst (fst (snd (grouped g uid xs summ per s))))"
proof (induction xs arbitrary: summ per s)
  case Nil
  then show ?case by simp
next
  case (Cons x xs)
  have "distinct (map fst (obj_push
          (if obj_get per (SeriesInstanceUID x) = None then per @ [(SeriesInstanceUID x, [])] else per)
          (SeriesInstanceUID x) (withImageId g (dicomWebConfig s) x)))"
    using add_key_distinct [OF Cons.prems] by (simp only: keys_obj_push)
  from Cons.IH [OF this] show ?case
    by (simp add: assignImageId_eq Let_def)
qed

lemma group_per_get:
  "per_lookup (fst (snd (grouped g uid xs summ per s))) k =
     per_lookup per k
     @ filter (\<lambda>x. SeriesInstanceUID x = k) (map (withImageId g (dicomWebConfig s)) xs)"
proof (induction xs arbitrary: summ per s)
  case Nil
  show ?case by simp
next
  case (Cons x xs)
  show ?case
    by (simp add: assignImageId_eq Let_def Cons.IH emit_all_fields)
       (auto simp: per_lookup_def obj_get_push obj_get_append split: option.splits)
qed

lemma mset_own_keys: "mset (own_keys obj) = mset (map fst obj)"
  by (simp add: own_keys_def)

lemma set_own_keys: "set (own_keys obj) = fst ` set obj"
  using mset_own_keys [of obj] by (metis set_mset_mset set_map)

lemma distinct_own_keys: "distinct (own_keys obj) \<longleftrightarrow> distinct (map fst obj)"
  using mset_own_keys [of obj] by (metis mset_eq_imp_distinct_iff)

lemma length_own_keys: "length (own_keys obj) = length obj"
  using mset_own_keys [of obj] by (metis length_map size_mset)

lemma commitSeries_eq:
  "commitSeries per mic ks s = emit_all (map (\<lambda>k. AddInstances (per_lookup per k) mic) ks) s"
  by (induction ks arbitrary: s)
     (simp_all add: emit_all_Nil emit_is_emit_all emit_all_emit_all per_lookup_def)

lemma obj_get_added:
  "obj_get (if obj_get per k = None then per @ [(k, v)] else per) k \<noteq> None"
  by (auto simp: obj_get_append)

lemma groupInstances_ok:
  "\<forall>x \<in> set xs. \<not> inherited_property (SeriesInstanceUID x) \<Longrightarrow>
   groupInstances g uid xs summ per s =
     (Inr (fst (grouped g uid xs summ per s), fst (snd (grouped g uid xs summ per s))),
      snd (snd (grouped g uid xs summ per s)))"
proof (induction xs arbitrary: summ per s)
  case Nil
  show ?case by simp
next
  case (Cons x xs)
  let ?k = "SeriesInstanceUID x"
  have k: "\<not> inherited_property ?k" using Cons.prems by simp
  let ?per1 = "if obj_get per ?k = None then per @ [(?k, [])] else per"
  obtain ys where ys: "obj_get ?per1 ?k = Some ys"
    using obj_get_added [of per ?k "[]"] by blast
  have rest: "\<forall>y \<in> set xs. \<not> inherited_property (SeriesInstanceUID y)"
    using Cons.prems by simp
  show ?case
    using k ys by (simp add: obj_truthy_def Let_def assignImageId_eq Cons.IH [OF rest])
qed

lemma per_keys_step:
  "\<forall>k \<in> fst ` set per. \<not> inherited_property k \<Longrightarrow> \<not> inherited_property k' \<Longrightarrow>
   \<forall>k \<in> fst ` set (obj_push (if obj_get per k' = None then per @ [(k', [])] else per) k' x).
      \<not> inherited_property k"
  by (simp only: keys_obj_push_set add_key_set) auto

lemma groupInstances_throws:
  "\<exists>x \<in> set xs. inherited_property (SeriesInstanceUID x) \<Longrightarrow>
   \<forall>k \<in> fst ` set per. \<not> inherited_property k \<Longrightarrow>
   \<exists>n. groupInstances g uid xs summ per s =
     (Inl (TypeError ''instancesPerSeries[...].push is not a function''),
      emit_all (map (registration g (dicomWebConfig s) uid) (take n xs)) s)"
proof (induction xs arbitrary: summ per s)
  case Nil
  then show ?case by simp
next
  case (Cons x xs)
  let ?k = "SeriesInstanceUID x"
  let ?s1 = "emit_all [registration g (dicomWebConfig s) uid x] s"
  show ?case
  proof (cases "inherited_property ?k")
    case True
    with Cons.prems(2) have "obj_get per ?k = None"
      by (auto simp: obj_get_None_iff)
    with True have "groupInstances g uid (x # xs) summ per s =
        (Inl (TypeError ''instancesPerSeries[...].push is not a function''),
         emit_all (map (registration g (dicomWebConfig s) uid) (take 1 (x # xs))) s)"
      by (simp add: obj_truthy_def Let_def assignImageId_eq)
    then show ?thesis by blast
  next
    case False
    let ?per1 = "if obj_get per ?k = None then per @ [(?k, [])] else per"
    let ?summ1 = "if obj_get summ ?k = None then summ @ [(?k, summary_of x)] else summ"
    let ?per2 = "obj_push ?per1 ?k (withImageId g (dicomWebConfig s) x)"
    obtain ys where ys: "obj_get ?per1 ?k = Some ys"
      using obj_get_added [of per ?k "[]"] by blast
    have bad: "\<exists>y \<in> set xs. inherited_property (SeriesInstanceUID y)"
      using Cons.prems(1) False by auto
    have keys: "\<forall>k \<in> fst ` set ?per2. \<not> inherited_property k"
      using Cons.prems(2) False by (rule per_keys_step)
    from Cons.IH [OF bad keys, where summ = ?summ1 and s = ?s1] obtain n where
      n: "groupInstances g uid xs ?summ1 ?per2 ?s1 =
        (Inl (TypeError ''instancesPerSeries[...].push is not a function''),
         emit_all (map (registration g (dicomWebConfig ?s1) uid) (take n xs)) ?s1)"
      by blast
    have "groupInstances g uid (x # xs) summ per s =
        (Inl (TypeError ''instancesPerSeries[...].push is not a function''),
         emit_all (map (registration g (dicomWebConfig s) uid) (take (Suc n) (x # xs))) s)"
      using False ys n
      by (simp add: obj_truthy_def Let_def assignImageId_eq emit_all_fields emit_all_emit_all)
    then show ?thesis by blast
  qed
qed

lemma sync_run:
  fixes nd :: "'raw \<Rightarrow> dicom_instance"
  assumes H: "\<forall>x \<in> set (map nd raws). \<not> inherited_property (SeriesInstanceUID x)"
    and G: "grouped g uid (map nd raws) [] []
                (emit (RetrieveStudyMetadata (wadoHeaders s) uid False f sc sf wc) s) = (summ, per, s2)"
  shows "retrieveSeriesMetadataSync nd g uid f sc sf mic wc (Fulfilled raws) s =
     (Fulfilled (),
      emit_all
        ([RetrieveStudyMetadata (wadoHeaders s) uid False f sc sf wc]
         @ map (registration g (dicomWebConfig s) uid) (map nd raws)
         @ [AddSeriesMetadata (obj_values summ) mic]
         @ map (\<lambda>k. AddInstances (per_lookup per k) mic) (own_keys per)) s)"
proof -
  have "s2 = snd (snd (grouped g uid (map nd raws) [] []
                (emit (RetrieveStudyMetadata (wadoHeaders s) uid False f sc sf wc) s)))"
    by (simp add: G)
  then have s2: "s2 = emit_all ([RetrieveStudyMetadata (wadoHeaders s) uid False f sc sf wc]
         @ map (registration g (dicomWebConfig s) uid) (map nd raws)) s"
    by (simp only: group_state) (simp add: emit_is_emit_all emit_all_emit_all emit_all_fields)
  have "groupInstances g uid (map nd raws) [] []
          (emit (RetrieveStudyMetadata (wadoHeaders s) uid False f sc sf wc) s) = (Inr (summ, per), s2)"
    using groupInstances_ok [OF H, where g = g and uid = uid and summ = "[]" and per = "[]"
        and s = "emit (RetrieveStudyMetadata (wadoHeaders s) uid False f sc sf wc) s"]
    by (simp add: G)
  then show ?thesis
    by (simp add: retrieveSeriesMetadataSync_def Let_def commitSeries_eq)
       (simp add: s2 emit_is_emit_all emit_all_emit_all)
qed

lemma sync_throws:
  fixes nd :: "'raw \<Rightarrow> dicom_instance"
  assumes "\<exists>x \<in> set (map nd raws). inherited_property (SeriesInstanceUID x)"
  shows "\<exists>n. retrieveSeriesMetadataSync nd g uid f sc sf mic wc (Fulfilled raws) s =
     (Rejected (TypeError ''instancesPerSeries[...].push is not a function''),
      emit_all
        ([RetrieveStudyMetadata (wadoHeaders s) uid False f sc sf wc]
         @ map (registration g (dicomWebConfig s) uid) (take n (map nd raws))) s)"
proof -
  let ?s1 = "emit (RetrieveStudyMetadata (wadoHeaders s) uid False f sc sf wc) s"
  have "\<forall>k \<in> fst ` set ([] :: (string \<times> dicom_instance list) list). \<not> inherited_property k"
    by simp
  from groupInstances_throws [OF assms this, where g = g and uid = uid and summ = "[]" and s = ?s1]
  obtain n where
    "groupInstances g uid (map nd raws) [] [] ?s1 =
      (Inl (TypeError ''instancesPerSeries[...].push is not a function''),
       emit_all (map (registration g (dicomWebConfig ?s1) uid) (take n (map nd raws))) ?s1)"
    by blast
  then have "retrieveSeriesMetadataSync nd g uid f sc sf mic wc (Fulfilled raws) s =
     (Rejected (TypeError ''instancesPerSeries[...].push is not a function''),
      emit_all
        ([RetrieveStudyMetadata (wadoHeaders s) uid False f sc sf wc]
         @ map (registration g (dicomWebConfig s) uid) (take n (map nd raws))) s)"
    by (simp add: retrieveSeriesMetadataSync_def Let_def emit_is_emit_all emit_all_emit_all
        emit_all_fields)
  then show ?thesis by blast
qed

lemma sync_grouped:
  assumes G: "grouped g uid xs [] [] s1 = (summ, per, s2)"
  shows "distinct (map fst summ)" "distinct (map fst per)"
    "fst ` set summ = SeriesInstanceUID ` set xs" "fst ` set per = SeriesInstanceUID ` set xs"
    "obj_get summ k = map_option summary_of (find (\<lambda>x. SeriesInstanceUID x = k) xs)"
    "per_lookup per k = filter (\<lambda>x. SeriesInstanceUID x = k) (map (withImageId g (dicomWebConfig s1)) xs)"
proof -
  have summ: "summ = fst (grouped g uid xs [] [] s1)"
    and per: "per = fst (snd (grouped g uid xs [] [] s1))"
    by (simp_all add: G)
  show "distinct (map fst summ)" unfolding summ by (rule group_summ_distinct) simp
  show "distinct (map fst per)" unfolding per by (rule group_per_distinct) simp
  show "fst ` set summ = SeriesInstanceUID ` set xs" unfolding summ by (simp add: group_summ_keys)
  show "fst ` set per = SeriesInstanceUID ` set xs" unfolding per by (simp add: group_per_keys)
  show "obj_get summ k = map_option summary_of (find (\<lambda>x. SeriesInstanceUID x = k) xs)"
    unfolding summ using group_summ_get [of g uid xs "[]" "[]" s1 k] by (simp add: obj_get_def)
  show "per_lookup per k = filter (\<lambda>x. SeriesInstanceUID x = k) (map (withImageId g (dicomWebConfig s1)) xs)"
    unfolding per using group_per_get [of g uid xs "[]" "[]" s1 k] by (simp add: per_lookup_def obj_get_def)
qed

lemma mset_filter_disjoint:
  "(\<And>x. \<not> (P x \<and> Q x)) \<Longrightarrow>
     mset (filter P ys) + mset (filter Q ys) = mset (filter (\<lambda>x. P x \<or> Q x) ys)"
  by (induction ys) auto

lemma mset_concat_groups_aux:
  "distinct ks \<Longrightarrow>
     mset (concat (map (\<lambda>k. filter (\<lambda>x. h x = k) ys) ks)) = mset (filter (\<lambda>x. h x \<in> set ks) ys)"
proof (induction ks)
  case Nil
  show ?case by simp
next
  case (Cons k ks)
  then have "mset (concat (map (\<lambda>k. filter (\<lambda>x. h x = k) ys) (k # ks)))
      = mset (filter (\<lambda>x. h x = k) ys) + mset (filter (\<lambda>x. h x \<in> set ks) ys)"
    by simp
  also have "\<dots> = mset (filter (\<lambda>x. h x = k \<or> h x \<in> set ks) ys)"
    using Cons.prems by (intro mset_filter_disjoint) auto
  finally show ?case by simp
qed

lemma mset_concat_groups:
  assumes "distinct ks" "h ` set ys \<subseteq> set ks"
  shows "mset (concat (map (\<lambda>k. filter (\<lambda>x. h x = k) ys) ks)) = mset ys"
proof -
  have "filter (\<lambda>x. h x \<in> set ks) ys = ys"
    using assms(2) by (auto simp: filter_id_conv)
  with mset_concat_groups_aux [OF assms(1), of h ys] show ?thesis by simp
qed

lemma map_key_values:
  "(\<And>k. k \<in> set ks \<Longrightarrow> \<exists>v. obj_get obj k = Some v \<and> h v = k) \<Longrightarrow>
     map h (concat (map (\<lambda>k. case obj_get obj k of None \<Rightarrow> [] | Some v \<Rightarrow> [v]) ks)) = ks"
proof (induction ks)
  case Nil
  show ?case by simp
next
  case (Cons k ks)
  from Cons.prems [of k] obtain v where "obj_get obj k = Some v" "h v = k" by auto
  moreover have "map h (concat (map (\<lambda>k. case obj_get obj k of None \<Rightarrow> [] | Some v \<Rightarrow> [v]) ks)) = ks"
    using Cons.prems by (intro Cons.IH) auto
  ultimately show ?case by simp
qed

lemma summary_of_series [simp]: "SeriesInstanceUID (summary_of x) = SeriesInstanceUID x"
  by (simp add: summary_of_def)

lemma find_series:
  "k \<in> SeriesInstanceUID ` set xs \<Longrightarrow>
     \<exists>x. find (\<lambda>x. SeriesInstanceUID x = k) xs = Some x \<and> SeriesInstanceUID x = k"
  by (induction xs) auto

lemma filter_commit_registrations:
  "filter is_commit (map (\<lambda>x. registration g cfg uid (F x)) xs) = []"
  by (simp add: filter_empty_conv registration_def)

lemma filter_commit_series:
  "filter is_commit (map (\<lambda>k. AddInstances (F k) mic) ks) = map (\<lambda>k. AddInstances (F k) mic) ks"
  by (induction ks) simp_all

lemma sync_failed:
  "retrieveSeriesMetadataSync nd g uid f sc sf mic wc (Rejected e) s =
     (Rejected e, emit_all [RetrieveStudyMetadata (wadoHeaders s) uid False f sc sf wc] s)"
  "retrieveSeriesMetadataSync nd g uid f sc sf mic wc Pending s =
     (Pending, emit_all [RetrieveStudyMetadata (wadoHeaders s) uid False f sc sf wc] s)"
  by (simp_all add: retrieveSeriesMetadataSync_def emit_is_emit_all)

subsection \<open>Registration before commit\<close>

lemma registered_in_mono:
  "registered_in uid evs x \<Longrightarrow> set evs \<subseteq> set evs' \<Longrightarrow> registered_in uid evs' x"
  by (auto simp: registered_in_def split: option.splits)

lemma registered_withImageId:
  "registration g cfg uid y \<in> set evs \<Longrightarrow> registered_in uid evs (withImageId g cfg y)"
  by (simp add: registered_in_def registration_def)

lemma commits_registered_append:
  "commits_registered uid before (a @ b) \<longleftrightarrow>
     commits_registered uid before a \<and> commits_registered uid (before @ a) b"
proof (induction a arbitrary: before)
  case Nil
  show ?case by simp
next
  case (Cons e a)
  show ?case by (cases e) (simp_all add: Cons.IH)
qed

lemma commits_registered_no_commit:
  "(\<And>xs m. AddInstances xs m \<notin> set evs) \<Longrightarrow> commits_registered uid before evs"
proof (induction evs arbitrary: before)
  case Nil
  show ?case by simp
next
  case (Cons e evs)
  have ih: "commits_registered uid (before @ [e]) evs"
    using Cons.prems by (intro Cons.IH) auto
  show ?case
  proof (cases e)
    case (AddInstances xs m)
    with Cons.prems [of xs m] show ?thesis by simp
  qed (use ih in simp_all)
qed

lemma commits_registered_registrations:
  "commits_registered uid before (map (registration g cfg uid') xs)"
  by (rule commits_registered_no_commit) (auto simp: registration_def)

lemma commits_registered_unit:
  "commits_registered uid before (unit_events nd g cfg uid mic p)"
proof (cases p)
  case (Inl e)
  then show ?thesis by (simp add: unit_events_def)
next
  case (Inr raws)
  let ?xs = "map (addRetrieveBulkData nd) raws"
  have "list_all (registered_in uid (before @ map (registration g cfg uid) ?xs))
         (map (withImageId g cfg) ?xs)"
    unfolding list_all_iff
  proof
    fix x assume "x \<in> set (map (withImageId g cfg) ?xs)"
    then obtain y where y: "y \<in> set ?xs" and x: "x = withImageId g cfg y" by auto
    from y have "registration g cfg uid y \<in> set (before @ map (registration g cfg uid) ?xs)"
      by (simp only: set_append set_map) blast
    then show "registered_in uid (before @ map (registration g cfg uid) ?xs) x"
      unfolding x by (rule registered_withImageId)
  qed
  moreover have "commits_registered uid before (map (registration g cfg uid) ?xs)"
    by (rule commits_registered_registrations)
  ultimately have "commits_registered uid before
      (map (registration g cfg uid) ?xs @ [AddInstances (map (withImageId g cfg) ?xs) mic])"
    by (simp only: commits_registered_append commits_registered.simps simp_thms)
  then show ?thesis
    unfolding Inr unit_events_def by (simp only: sum.case)
qed

lemma commits_registered_units:
  "commits_registered uid before (concat (map (\<lambda>i. unit_events nd g cfg uid mic (ps ! i)) ds))"
  by (induction ds arbitrary: before)
     (simp_all add: commits_registered_append commits_registered_unit)

lemma commits_registered_series:
  "(\<And>k x. k \<in> set ks \<Longrightarrow> x \<in> set (F k) \<Longrightarrow> registered_in uid before x) \<Longrightarrow>
     commits_registered uid before (map (\<lambda>k. AddInstances (F k) mic) ks)"
proof (induction ks arbitrary: before)
  case Nil
  show ?case by simp
next
  case (Cons k ks)
  have "commits_registered uid (before @ [AddInstances (F k) mic]) (map (\<lambda>k. AddInstances (F k) mic) ks)"
  proof (rule Cons.IH)
    fix k' x assume "k' \<in> set ks" "x \<in> set (F k')"
    then have "registered_in uid before x" using Cons.prems [of k' x] by simp
    then show "registered_in uid (before @ [AddInstances (F k) mic]) x"
      by (rule registered_in_mono) auto
  qed
  moreover have "list_all (registered_in uid before) (F k)"
    using Cons.prems by (auto simp: list_all_iff)
  ultimately show ?case by simp
qed

lemma sync_commits_registered:
  "commits_registered uid [] (emitted s (snd (retrieveSeriesMetadataSync nd g uid f sc sf mic wc data s)))"
proof (cases data)
  case (Rejected e)
  then show ?thesis by (simp add: sync_failed emitted_emit_all)
next
  case Pending
  then show ?thesis by (simp add: sync_failed emitted_emit_all)
next
  case (Fulfilled raws)
  let ?s1 = "emit (RetrieveStudyMetadata (wadoHeaders s) uid False f sc sf wc) s"
  let ?xs = "map nd raws"
  let ?cfg = "dicomWebConfig s"
  show ?thesis
  proof (cases "\<forall>x \<in> set ?xs. \<not> inherited_property (SeriesInstanceUID x)")
    case False
    then have "\<exists>x \<in> set ?xs. inherited_property (SeriesInstanceUID x)" by blast
    from sync_throws [OF this, of g uid f sc sf mic wc s] obtain n where
      "retrieveSeriesMetadataSync nd g uid f sc sf mic wc (Fulfilled raws) s =
        (Rejected (TypeError ''instancesPerSeries[...].push is not a function''),
         emit_all ([RetrieveStudyMetadata (wadoHeaders s) uid False f sc sf wc]
           @ map (registration g ?cfg uid) (take n ?xs)) s)"
      by blast
    moreover have "commits_registered uid []
        ([RetrieveStudyMetadata (wadoHeaders s) uid False f sc sf wc]
           @ map (registration g ?cfg uid) (take n ?xs))"
      by (rule commits_registered_no_commit) (auto simp: registration_def)
    ultimately show ?thesis
      by (simp only: Fulfilled snd_conv emitted_emit_all)
  next
    case H: True
  obtain summ per s2 where G: "grouped g uid ?xs [] [] ?s1 = (summ, per, s2)"
    by (cases "grouped g uid ?xs [] [] ?s1") auto
  note gr = sync_grouped [OF G]
  have cfg: "dicomWebConfig ?s1 = ?cfg"
    by (simp add: emit_is_emit_all emit_all_fields)
  let ?before = "[RetrieveStudyMetadata (wadoHeaders s) uid False f sc sf wc]
         @ map (registration g ?cfg uid) ?xs @ [AddSeriesMetadata (obj_values summ) mic]"
  have reg: "registered_in uid ?before x" if "x \<in> set (per_lookup per k)" for k x
  proof -
    from that obtain y where y: "y \<in> set ?xs" and x: "x = withImageId g ?cfg y"
      unfolding gr(6) cfg by auto
    then have "registration g ?cfg uid y \<in> set (map (registration g ?cfg uid) ?xs)"
      by (simp only: set_map) (rule imageI)
    then have "registration g ?cfg uid y \<in> set ?before" by (simp only: set_append) blast
    then show ?thesis unfolding x by (rule registered_withImageId)
  qed
  have "commits_registered uid ?before (map (\<lambda>k. AddInstances (per_lookup per k) mic) (own_keys per))"
    by (rule commits_registered_series) (rule reg)
  moreover have "commits_registered uid [] ?before"
    by (rule commits_registered_no_commit) (auto simp: registration_def)
  ultimately have "commits_registered uid [] (?before @ map (\<lambda>k. AddInstances (per_lookup per k) mic) (own_keys per))"
    by (simp only: commits_registered_append append_Nil)
  then show ?thesis
    by (simp add: Fulfilled sync_run [OF H G] emitted_emit_all)
  qed
qed

lemma async_failed:
  "retrieveSeriesMetadataAsync nd g found uid f sc sf mic wc (Rejected e) order s =
     (Rejected e, emit_all [RetrieveStudyMetadata (wadoHeaders s) uid True f sc sf wc] s)"
  "retrieveSeriesMetadataAsync nd g found uid f sc sf mic wc Pending order s =
     (Pending, emit_all [RetrieveStudyMetadata (wadoHeaders s) uid True f sc sf wc] s)"
  by (simp_all add: retrieveSeriesMetadataAsync_def emit_is_emit_all)

lemma async_commits_registered:
  "commits_registered uid [] (emitted s (snd (retrieveSeriesMetadataAsync nd g found uid f sc sf mic wc fetched order s)))"
proof (cases fetched)
  case (Rejected e)
  then show ?thesis by (simp add: async_failed emitted_emit_all)
next
  case Pending
  then show ?thesis by (simp add: async_failed emitted_emit_all)
next
  case (Fulfilled p)
  obtain pre ps where p: "p = (pre, ps)" by (cases p)
  show ?thesis
    unfolding Fulfilled p async_run snd_conv emitted_emit_all
    by (simp add: commits_registered_append commits_registered_units)
qed

lemma sync_commit_payload:
  assumes "AddInstances xs m \<in> set (emitted s (snd (retrieveSeriesMetadataSync nd g uid f sc sf mic wc data s)))"
  shows "\<forall>x \<in> set xs. \<exists>y. x = withImageId g (dicomWebConfig s) y"
proof (cases data)
  case (Rejected e)
  with assms show ?thesis by (simp add: sync_failed emitted_emit_all)
next
  case Pending
  with assms show ?thesis by (simp add: sync_failed emitted_emit_all)
next
  case (Fulfilled raws)
  let ?s1 = "emit (RetrieveStudyMetadata (wadoHeaders s) uid False f sc sf wc) s"
  show ?thesis
  proof (cases "\<forall>x \<in> set (map nd raws). \<not> inherited_property (SeriesInstanceUID x)")
    case False
    then have "\<exists>x \<in> set (map nd raws). inherited_property (SeriesInstanceUID x)" by blast
    from sync_throws [OF this, of g uid f sc sf mic wc s] obtain n where
      "retrieveSeriesMetadataSync nd g uid f sc sf mic wc (Fulfilled raws) s =
        (Rejected (TypeError ''instancesPerSeries[...].push is not a function''),
         emit_all ([RetrieveStudyMetadata (wadoHeaders s) uid False f sc sf wc]
           @ map (registration g (dicomWebConfig s) uid) (take n (map nd raws))) s)"
      by blast
    with assms have "AddInstances xs m \<in> set ([RetrieveStudyMetadata (wadoHeaders s) uid False f sc sf wc]
           @ map (registration g (dicomWebConfig s) uid) (take n (map nd raws)))"
      by (simp only: Fulfilled snd_conv emitted_emit_all)
    then show ?thesis by (auto simp: registration_def)
  next
    case H: True
    obtain summ per s2 where G: "grouped g uid (map nd raws) [] [] ?s1 = (summ, per, s2)"
      by (cases "grouped g uid (map nd raws) [] [] ?s1") auto
    note gr = sync_grouped [OF G]
    have cfg: "dicomWebConfig ?s1 = dicomWebConfig s"
      by (simp add: emit_is_emit_all emit_all_fields)
    from assms obtain k where "xs = per_lookup per k"
      by (auto simp: Fulfilled sync_run [OF H G] emitted_emit_all registration_def)
    then show ?thesis
      unfolding gr(6) cfg by auto
  qed
qed

lemma async_commit_payload:
  assumes "AddInstances xs m \<in> set (emitted s (snd (retrieveSeriesMetadataAsync nd g found uid f sc sf mic wc fetched order s)))"
  shows "\<forall>x \<in> set xs. \<exists>y. x = withImageId g (dicomWebConfig s) y"
proof (cases fetched)
  case (Rejected e)
  with assms show ?thesis by (simp add: async_failed emitted_emit_all)
next
  case Pending
  with assms show ?thesis by (simp add: async_failed emitted_emit_all)
next
  case (Fulfilled p)
  obtain pre ps where p: "p = (pre, ps)" by (cases p)
  from assms obtain raws where "xs = committed nd g (dicomWebConfig s) raws"
    unfolding Fulfilled p async_run snd_conv emitted_emit_all
    by (auto simp: unit_events_commit split: if_splits)
  then show ?thesis by (auto simp: committed_def)
qed

subsection \<open>Headers and first events\<close>

lemma setWadoHeaders_fields:
  "trace (setWadoHeaders h s) = trace s"
  "dicomWebConfig (setWadoHeaders h s) = dicomWebConfig s"
  "webConfig (setWadoHeaders h s) = webConfig s"
  "qidoHeaders (setWadoHeaders h s) = qidoHeaders s"
  "wadoHeaders (setWadoHeaders h s) = (case h of None \<Rightarrow> wadoHeaders s | Some x \<Rightarrow> Some x)"
  by (cases h; simp add: setWadoHeaders_def)+

lemma setQidoHeaders_fields:
  "trace (setQidoHeaders h s) = trace s"
  "dicomWebConfig (setQidoHeaders h s) = dicomWebConfig s"
  "webConfig (setQidoHeaders h s) = webConfig s"
  "wadoHeaders (setQidoHeaders h s) = wadoHeaders s"
  "qidoHeaders (setQidoHeaders h s) = (case h of None \<Rightarrow> qidoHeaders s | Some x \<Rightarrow> Some x)"
  by (cases h; simp add: setQidoHeaders_def)+

lemma emitted_same_trace: "trace s' = trace s \<Longrightarrow> emitted s (emit_all evs s') = evs"
  by (simp add: emitted_def emit_all_def)

lemma emitted_same_trace_Nil: "trace s' = trace s \<Longrightarrow> emitted s s' = []"
  by (simp add: emitted_def)

lemma sync_first_event:
  "\<exists>rest. retrieveSeriesMetadataSync nd g uid f sc sf mic wc data s' =
     (fst (retrieveSeriesMetadataSync nd g uid f sc sf mic wc data s'),
      emit_all (RetrieveStudyMetadata (wadoHeaders s') uid False f sc sf wc # rest) s')"
proof (cases data)
  case (Fulfilled raws)
  show ?thesis
  proof (cases "\<forall>x \<in> set (map nd raws). \<not> inherited_property (SeriesInstanceUID x)")
    case False
    then have "\<exists>x \<in> set (map nd raws). inherited_property (SeriesInstanceUID x)" by blast
    from sync_throws [OF this, of g uid f sc sf mic wc s'] show ?thesis
      unfolding Fulfilled by auto
  next
    case H: True
    obtain summ per s2 where G: "grouped g uid (map nd raws) [] []
        (emit (RetrieveStudyMetadata (wadoHeaders s') uid False f sc sf wc) s') = (summ, per, s2)"
      by (cases "grouped g uid (map nd raws) [] []
        (emit (RetrieveStudyMetadata (wadoHeaders s') uid False f sc sf wc) s')") auto
    show ?thesis unfolding Fulfilled sync_run [OF H G] by auto
  qed
qed (auto simp: sync_failed)

lemma async_first_event:
  "\<exists>rest. retrieveSeriesMetadataAsync nd g found uid f sc sf mic wc fetched order s' =
     (fst (retrieveSeriesMetadataAsync nd g found uid f sc sf mic wc fetched order s'),
      emit_all (RetrieveStudyMetadata (wadoHeaders s') uid True f sc sf wc # rest) s')"
proof (cases fetched)
  case (Fulfilled p)
  obtain pre ps where p: "p = (pre, ps)" by (cases p)
  show ?thesis unfolding Fulfilled p async_run by auto
qed (auto simp: async_failed)

lemma sync_result:
  assumes r: "fst (retrieveSeriesMetadataSync nd g uid f sc sf mic wc data s') = Rejected (ConfigurationError m)"
  shows "data = Rejected (ConfigurationError m)"
proof (cases data)
  case (Fulfilled raws)
  show ?thesis
  proof (cases "\<forall>x \<in> set (map nd raws). \<not> inherited_property (SeriesInstanceUID x)")
    case False
    then have "\<exists>x \<in> set (map nd raws). inherited_property (SeriesInstanceUID x)" by blast
    from sync_throws [OF this, of g uid f sc sf mic wc s'] r show ?thesis
      unfolding Fulfilled by auto
  next
    case H: True
    obtain summ per s2 where G: "grouped g uid (map nd raws) [] []
        (emit (RetrieveStudyMetadata (wadoHeaders s') uid False f sc sf wc) s') = (summ, per, s2)"
      by (cases "grouped g uid (map nd raws) [] []
        (emit (RetrieveStudyMetadata (wadoHeaders s') uid False f sc sf wc) s')") auto
    from r show ?thesis unfolding Fulfilled sync_run [OF H G] by simp
  qed
qed (use r in \<open>auto simp: sync_failed\<close>)

lemma async_result:
  "fst (retrieveSeriesMetadataAsync nd g found uid f sc sf mic wc fetched order s') = Rejected (ConfigurationError m)
     \<Longrightarrow> fetched = Rejected (ConfigurationError m)"
proof (cases fetched)
  case (Fulfilled p)
  assume r: "fst (retrieveSeriesMetadataAsync nd g found uid f sc sf mic wc fetched order s') = Rejected (ConfigurationError m)"
  obtain pre ps where p: "p = (pre, ps)" by (cases p)
  from r show ?thesis unfolding Fulfilled p async_run by (simp split: if_splits)
qed (auto simp: async_failed)

lemma call_retrieveBulkData_fulfilled:
  "retrieveBulkData v \<Longrightarrow>
   call_retrieveBulkData owner (Fulfilled val) (v, s) =
     (Fulfilled (first_or_undefined val), v\<lparr>Value := first_or_undefined val\<rparr>,
      emit_all [RetrieveBulkData (qidoHeaders s)
                  \<lparr>multipart = False, oBulkDataURI = BulkDataURI v, oStudyInstanceUID = owner\<rparr>] s)"
  by (simp add: call_retrieveBulkData_def Let_def emit_is_emit_all)

lemma series_metadata_first_event:
  fixes nd :: "'raw \<Rightarrow> dicom_instance"
  assumes "reqStudyInstanceUID req = Some uid" "uid \<noteq> []"
  shows "\<exists>rest. emitted s (snd (series_metadata nd g env req s)) =
     RetrieveStudyMetadata (case authorizationHeader env of None \<Rightarrow> wadoHeaders s | Some h \<Rightarrow> Some h)
       uid (enableStudyLazyLoad (dicomWebConfig s))
       (reqFilters req) (reqSortCriteria req) (reqSortFunction req)
       (case reqWithCredentials req of None \<Rightarrow> withCredentials (webConfig s) | Some b \<Rightarrow> b) # rest"
proof -
  let ?s1 = "setWadoHeaders (authorizationHeader env) s"
  let ?mic = "case reqMadeInClient req of None \<Rightarrow> False | Some b \<Rightarrow> b"
  let ?wc = "case reqWithCredentials req of None \<Rightarrow> withCredentials (webConfig s) | Some b \<Rightarrow> b"
  show ?thesis
  proof (cases "enableStudyLazyLoad (dicomWebConfig s)")
    case True
    have eq: "series_metadata nd g env req s =
        retrieveSeriesMetadataAsync nd g (studyFound env) uid (reqFilters req) (reqSortCriteria req)
          (reqSortFunction req) ?mic ?wc (seriesData env) (settleOrder env) ?s1"
      using assms True by (simp add: series_metadata_def Let_def setWadoHeaders_fields)
    from async_first_event [of nd g "studyFound env" uid "reqFilters req" "reqSortCriteria req"
        "reqSortFunction req" ?mic ?wc "seriesData env" "settleOrder env" ?s1]
    obtain rest where "snd (series_metadata nd g env req s) =
        emit_all (RetrieveStudyMetadata (wadoHeaders ?s1) uid True (reqFilters req)
          (reqSortCriteria req) (reqSortFunction req) ?wc # rest) ?s1"
      unfolding eq by (metis snd_conv)
    then show ?thesis
      using True by (simp add: emitted_same_trace setWadoHeaders_fields)
  next
    case False
    have eq: "series_metadata nd g env req s =
        retrieveSeriesMetadataSync nd g uid (reqFilters req) (reqSortCriteria req)
          (reqSortFunction req) ?mic ?wc (studyData env) ?s1"
      using assms False by (simp add: series_metadata_def Let_def setWadoHeaders_fields)
    from sync_first_event [of nd g uid "reqFilters req" "reqSortCriteria req"
        "reqSortFunction req" ?mic ?wc "studyData env" ?s1]
    obtain rest where "snd (series_metadata nd g env req s) =
        emit_all (RetrieveStudyMetadata (wadoHeaders ?s1) uid False (reqFilters req)
          (reqSortCriteria req) (reqSortFunction req) ?wc # rest) ?s1"
      unfolding eq by (metis snd_conv)
    then show ?thesis
      using False by (simp add: emitted_same_trace setWadoHeaders_fields)
  qed
qed

subsection \<open>Image-identifier synthesis\<close>

lemma frame_loop_upto: "frame_loop a b = [a..b]"
proof (induction a b rule: frame_loop.induct)
  case (1 frame endIdx)
  show ?case
  proof (cases "frame \<le> endIdx")
    case True
    with 1 show ?thesis
      by (subst frame_loop.simps) (simp add: upto_rec1)
  next
    case False
    then show ?thesis
      by (subst frame_loop.simps) simp
  qed
qed

lemma instanceImageIds_single:
  "\<not> more_than_one (NumberOfFrames inst) \<Longrightarrow> instanceImageIds g cfg m inst = [g inst None cfg]"
  by (simp add: instanceImageIds_def getImageIdsForInstance_def Let_def)

lemma instanceImageIds_default:
  assumes "NumberOfFrames inst = Some n" "1 < n" "\<And>f. m \<noteq> MapperFunction f"
  shows "instanceImageIds g cfg m inst = map (\<lambda>frame. g inst (Some frame) cfg) [1..n]"
  using assms
  by (cases m) (auto simp: instanceImageIds_def getImageIdsForInstance_def frame_loop_upto)

lemma instanceImageIds_mapper:
  assumes "NumberOfFrames inst = Some n" "1 < n"
  shows "instanceImageIds g cfg (MapperFunction f) inst =
         map (\<lambda>frame. g inst (Some frame) cfg) [startIndex (f ())..endIndex (f ())]"
  using assms
  by (simp add: instanceImageIds_def getImageIdsForInstance_def frame_loop_upto)

lemma collectImageIds_with_accessor:
  "getAttribute ds = Some a \<Longrightarrow>
   collectImageIds g cfg ds imgs acc =
     Inr (acc @ concat (map (instanceImageIds g cfg (a ''multiFrameImagesMapper'')) imgs))"
  by (induction imgs arbitrary: acc) simp_all

lemma getImageIdsForDisplaySet_with_accessor:
  "(NumberOfFrames inst = Some 1 \<longrightarrow>
      getImageIdsForDisplaySet getImageId cfg \<lparr>images = Some [inst], getAttribute = Some a\<rparr>
        = Inr [getImageId inst None cfg])
   \<and> (NumberOfFrames inst = Some n \<and> 1 < n \<and> (\<forall>f. a ''multiFrameImagesMapper'' \<noteq> MapperFunction f) \<longrightarrow>
      getImageIdsForDisplaySet getImageId cfg \<lparr>images = Some [inst], getAttribute = Some a\<rparr>
        = Inr (map (\<lambda>frame. getImageId inst (Some frame) cfg) [1..n])
      \<and> int (length (map (\<lambda>frame. getImageId inst (Some frame) cfg) [1..n])) = n)
   \<and> (NumberOfFrames inst = Some n \<and> 1 < n \<and> a ''multiFrameImagesMapper'' = MapperFunction f
        \<and> startIndex (f ()) \<le> endIndex (f ()) \<longrightarrow>
      getImageIdsForDisplaySet getImageId cfg \<lparr>images = Some [inst], getAttribute = Some a\<rparr>
        = Inr (map (\<lambda>frame. getImageId inst (Some frame) cfg) [startIndex (f ())..endIndex (f ())])
      \<and> int (length (map (\<lambda>frame. getImageId inst (Some frame) cfg) [startIndex (f ())..endIndex (f ())]))
          = endIndex (f ()) - startIndex (f ()) + 1)
   \<and> (images ds = Some imgs \<and> getAttribute ds = Some a \<longrightarrow>
      getImageIdsForDisplaySet getImageId cfg ds
        = Inr (concat (map (instanceImageIds getImageId cfg (a ''multiFrameImagesMapper'')) imgs)))"
  by (auto simp: getImageIdsForDisplaySet_def collectImageIds_with_accessor instanceImageIds_single
      instanceImageIds_default instanceImageIds_mapper)

text \<open>
  C4. Image-identifier synthesis over a display set: one identifier without a frame for a
  single-frame instance, the frames \<open>1, ..., NumberOfFrames\<close> for a multi-frame instance
  without a mapper. The code gives these on a display set that has the method
  \<^verbatim>\<open>getAttribute\<close>. It calls the method for every instance without looking whether it is
  there, so on the object \<^verbatim>\<open>{ images }\<close>, which is what \<^verbatim>\<open>getImageIdsForStudy\<close> passes,
  it throws at the first instance: for a single-frame instance and for a ten-frame instance
  the result is the \<^verbatim>\<open>TypeError\<close> where the same images with the method give one and ten
  identifiers.
\<close>

theorem getImageIdsForDisplaySet_without_accessor:
  "getImageIdsForDisplaySet example_getImageId example_config
      \<lparr>images = Some [example_instance ''1.2.3.1'' ''1.2.3.1.1'' 1], getAttribute = None\<rparr>
     = Inl (TypeError ''displaySet.getAttribute is not a function'')
   \<and> getImageIdsForDisplaySet example_getImageId example_config
      \<lparr>images = Some [example_instance ''1.2.3.1'' ''1.2.3.1.1'' 10], getAttribute = None\<rparr>
     = Inl (TypeError ''displaySet.getAttribute is not a function'')
   \<and> getImageIdsForDisplaySet example_getImageId example_config
      \<lparr>images = Some [example_instance ''1.2.3.1'' ''1.2.3.1.1'' 1],
       getAttribute = Some (\<lambda>name. NoAttribute)\<rparr>
     = Inr [''wadors:https://pacs/wado/1.2.3.1.1'']
   \<and> map_sum id length (getImageIdsForDisplaySet example_getImageId example_config
      \<lparr>images = Some [example_instance ''1.2.3.1'' ''1.2.3.1.1'' 10],
       getAttribute = Some (\<lambda>name. NoAttribute)\<rparr>)
     = Inr 10"
proof -
  have "NumberOfFrames (example_instance ''1.2.3.1'' ''1.2.3.1.1'' 10) = Some 10"
    by (simp add: example_instance_def)
  then have ten: "instanceImageIds example_getImageId example_config NoAttribute
      (example_instance ''1.2.3.1'' ''1.2.3.1.1'' 10)
    = map (\<lambda>frame. example_getImageId (example_instance ''1.2.3.1'' ''1.2.3.1.1'' 10) (Some frame)
             example_config) [1..10]"
    by (rule instanceImageIds_default) simp_all
  have one: "instanceImageIds example_getImageId example_config NoAttribute
      (example_instance ''1.2.3.1'' ''1.2.3.1.1'' 1)
    = [''wadors:https://pacs/wado/1.2.3.1.1'']"
    by (simp add: instanceImageIds_single example_instance_def example_getImageId_def
        example_config_def)
  show ?thesis
    by (simp add: getImageIdsForDisplaySet_def one ten)
qed

subsection \<open>Instance search\<close>

text \<open>
  C10. \<^verbatim>\<open>query.instances.search\<close> returns \<^verbatim>\<open>undefined\<close> on every input and whatever the
  underlying search settles to: it issues the one QIDO search, for the given study and
  query parameters and with \<^verbatim>\<open>null\<close> for the series, and lets go of its result.
\<close>

theorem query_instances_search_undefined:
  "fst (query_instances_search hdrs studyInstanceUid queryParameters results s) = JUndefined
   \<and> emitted s (snd (query_instances_search hdrs studyInstanceUid queryParameters results s))
       = [QidoSearch (case hdrs of None \<Rightarrow> qidoHeaders s | Some h \<Rightarrow> Some h)
            studyInstanceUid JNull queryParameters]"
  by (cases hdrs) (simp_all add: query_instances_search_def setQidoHeaders_def emit_def emitted_def)

subsection \<open>Lazy retrieval: the completion barrier\<close>

text \<open>
  C2. Under the lazy strategy, with \<open>N\<close> per-series promises and once the helper has
  delivered them: when every promise has settled, fulfilled or rejected in any mix, the
  call resumes, looks the study up and sets \<^verbatim>\<open>isLoaded\<close> (given that the store returns the
  study), and this is the last event, after the events of every series' unit of work; as
  long as one promise has not settled the call stays pending and \<^verbatim>\<open>isLoaded\<close> is not set.
  Every settled series whose promise is fulfilled has its instances committed by one
  \<^verbatim>\<open>addInstances\<close>, whatever happened to the other series, and every \<^verbatim>\<open>addInstances\<close>
  of the call commits the instances of a series whose promise is fulfilled: the unit of work
  of a rejected promise commits nothing.
\<close>

theorem lazy_loaded_after_all_settled:
  fixes nd :: "'raw \<Rightarrow> dicom_instance" and g :: get_image_id and ps :: "(error + 'raw list) list"
    and found mic wc :: bool and uid :: string and f sc sf :: jsval and pre :: "series_summary list"
    and order :: "nat list" and s :: ds_state
  defines "run \<equiv> retrieveSeriesMetadataAsync nd g found uid f sc sf mic wc (Fulfilled (pre, ps)) order s"
  shows
  "(found \<and> (\<forall>i<length ps. i \<in> set order) \<longrightarrow>
      fst run = Fulfilled ()
      \<and> (\<exists>evs. emitted s (snd run) = evs @ [GetStudy uid mic, SetIsLoaded uid]
               \<and> SetIsLoaded uid \<notin> set evs
               \<and> (\<forall>i<length ps. set (unit_events nd g (dicomWebConfig s) uid mic (ps ! i)) \<subseteq> set evs)))
   \<and> ((\<exists>i<length ps. i \<notin> set order) \<longrightarrow>
      fst run = Pending \<and> SetIsLoaded uid \<notin> set (emitted s (snd run)))
   \<and> (\<forall>i<length ps. \<forall>raws. i \<in> set order \<and> ps ! i = Inr raws \<longrightarrow>
      AddInstances (committed nd g (dicomWebConfig s) raws) mic \<in> set (emitted s (snd run)))
   \<and> (\<forall>xs m. AddInstances xs m \<in> set (emitted s (snd run)) \<longrightarrow>
      (\<exists>i<length ps. \<exists>raws. i \<in> set order \<and> ps ! i = Inr raws
         \<and> xs = committed nd g (dicomWebConfig s) raws \<and> m = mic))"
proof -
  let ?ds = "deliveries (length ps) order []"
  let ?units = "concat (map (\<lambda>i. unit_events nd g (dicomWebConfig s) uid mic (ps ! i)) ?ds)"
  let ?head = "[RetrieveStudyMetadata (wadoHeaders s) uid True f sc sf wc,
          AddSeriesMetadata (map (\<lambda>aSeries. aSeries\<lparr>StudyInstanceUID := Some uid\<rparr>) pre) mic]"
  have ds: "set ?ds = {i \<in> set order. i < length ps}"
    by (simp add: set_deliveries)
  have noflag: "SetIsLoaded uid \<notin> set (?head @ ?units)"
    by (auto simp: unit_events_no_flag)
  have commit: "AddInstances xs m \<in> set (?head @ ?units) \<longleftrightarrow>
      (\<exists>i<length ps. \<exists>raws. i \<in> set order \<and> ps ! i = Inr raws
         \<and> xs = committed nd g (dicomWebConfig s) raws \<and> m = mic)" for xs m
    by (auto simp: unit_events_commit ds)
  have a: "found \<and> (\<forall>i<length ps. i \<in> set order) \<longrightarrow>
      fst run = Fulfilled ()
      \<and> (\<exists>evs. emitted s (snd run)
                 = evs @ [GetStudy uid mic, SetIsLoaded uid]
               \<and> SetIsLoaded uid \<notin> set evs
               \<and> (\<forall>i<length ps. set (unit_events nd g (dicomWebConfig s) uid mic (ps ! i)) \<subseteq> set evs))"
  proof
    assume h: "found \<and> (\<forall>i<length ps. i \<in> set order)"
    then have e: "emitted s (snd run)
        = (?head @ ?units) @ [GetStudy uid mic, SetIsLoaded uid]"
      by (simp add: run_def async_run emitted_emit_all)
    have sub: "\<forall>i<length ps. set (unit_events nd g (dicomWebConfig s) uid mic (ps ! i)) \<subseteq> set (?head @ ?units)"
      using h ds by auto
    from h have "fst run = Fulfilled ()"
      by (simp add: run_def async_run)
    with e noflag sub show "fst run = Fulfilled ()
      \<and> (\<exists>evs. emitted s (snd run)
                 = evs @ [GetStudy uid mic, SetIsLoaded uid]
               \<and> SetIsLoaded uid \<notin> set evs
               \<and> (\<forall>i<length ps. set (unit_events nd g (dicomWebConfig s) uid mic (ps ! i)) \<subseteq> set evs))"
      by blast
  qed
  have b: "(\<exists>i<length ps. i \<notin> set order) \<longrightarrow>
      fst run = Pending
      \<and> SetIsLoaded uid \<notin> set (emitted s (snd run))"
  proof
    assume h: "\<exists>i<length ps. i \<notin> set order"
    then have n: "\<not> (\<forall>i<length ps. i \<in> set order)" by blast
    have e: "emitted s (snd run) = ?head @ ?units"
      using n by (simp add: run_def async_run emitted_emit_all)
    have "fst run = Pending"
      using n by (simp add: run_def async_run)
    with e noflag show "fst run = Pending
      \<and> SetIsLoaded uid \<notin> set (emitted s (snd run))"
      by simp
  qed
  have em: "set (emitted s (snd run))
      = set (?head @ ?units) \<union> set (if (\<forall>i<length ps. i \<in> set order)
            then GetStudy uid mic # (if found then [SetIsLoaded uid] else []) else [])"
    by (simp add: run_def async_run emitted_emit_all)
  have c: "AddInstances xs m \<in> set (emitted s (snd run))
     \<longleftrightarrow> AddInstances xs m \<in> set (?head @ ?units)" for xs m
    unfolding em by auto
  show ?thesis
    using a b by (simp only: c commit) blast
qed

theorem lazy_loaded_after_all_settled_witness:
  "fst (retrieveSeriesMetadataAsync id example_getImageId True ''1.2.3'' JUndefined JUndefined JUndefined
          False False
          (Fulfilled ([], [Inr [example_instance ''S1'' ''S1.1'' 1], Inl (TransportError ''S2'')]))
          [1, 0] example_state) = Fulfilled ()
   \<and> AddInstances (committed id example_getImageId example_config [example_instance ''S1'' ''S1.1'' 1]) False
       \<in> set (emitted example_state (snd
           (retrieveSeriesMetadataAsync id example_getImageId True ''1.2.3'' JUndefined JUndefined JUndefined
              False False
              (Fulfilled ([], [Inr [example_instance ''S1'' ''S1.1'' 1], Inl (TransportError ''S2'')]))
              [1, 0] example_state)))"
proof -
  have all: "\<forall>i<length [Inr [example_instance ''S1'' ''S1.1'' 1], Inl (TransportError ''S2'')]. i \<in> set [1, 0::nat]"
    by (auto simp: less_Suc_eq)
  have cfg: "dicomWebConfig example_state = example_config"
    by (simp add: example_state_def)
  show ?thesis
    using lazy_loaded_after_all_settled
      [of True "[Inr [example_instance ''S1'' ''S1.1'' 1], Inl (TransportError ''S2'')]" "[1, 0]"
          id example_getImageId "''1.2.3''" JUndefined JUndefined JUndefined False False "[]" example_state]
      all cfg
    by (auto simp: less_Suc_eq)
qed

subsection \<open>Lazy retrieval: the order of the commits\<close>

text \<open>
  C8. Under the lazy strategy, once the helper has delivered the summaries and the per-series
  promises, the first thing the call does after the one \<^verbatim>\<open>retrieveStudyMetadata\<close> call is
  to commit the series summaries, for every order of settlement, the empty one included: the
  summaries are in the cache before any series settles and before the barrier is awaited.
  The commits of the call are this one \<^verbatim>\<open>addSeriesMetadata\<close> followed by one
  \<^verbatim>\<open>addInstances\<close> per series whose promise is fulfilled, in the order in which the
  series settle, each with the instances of that one series. The settled series are the
  indices below \<open>N\<close> of the order, each once.
\<close>

theorem lazy_summaries_before_series_commits:
  fixes nd :: "'raw \<Rightarrow> dicom_instance" and g :: get_image_id and ps :: "(error + 'raw list) list"
    and found mic wc :: bool and uid :: string and f sc sf :: jsval and pre :: "series_summary list"
    and order :: "nat list" and s :: ds_state
  defines "run \<equiv> retrieveSeriesMetadataAsync nd g found uid f sc sf mic wc (Fulfilled (pre, ps)) order s"
  shows
  "take 2 (emitted s (snd run)) =
      [RetrieveStudyMetadata (wadoHeaders s) uid True f sc sf wc,
       AddSeriesMetadata (map (\<lambda>aSeries. aSeries\<lparr>StudyInstanceUID := Some uid\<rparr>) pre) mic]
   \<and> filter is_commit (emitted s (snd run)) =
      AddSeriesMetadata (map (\<lambda>aSeries. aSeries\<lparr>StudyInstanceUID := Some uid\<rparr>) pre) mic
      # map (\<lambda>i. AddInstances (case ps ! i of Inl e \<Rightarrow> []
                                | Inr raws \<Rightarrow> committed nd g (dicomWebConfig s) raws) mic)
          (filter (\<lambda>i. is_fulfilled (ps ! i)) (deliveries (length ps) order []))
   \<and> distinct (deliveries (length ps) order [])
   \<and> set (deliveries (length ps) order []) = {i \<in> set order. i < length ps}"
  by (simp add: run_def async_run emitted_emit_all filter_commit_units distinct_deliveries
      set_deliveries)

theorem lazy_summaries_before_series_commits_witness:
  "filter is_commit (emitted example_state (snd
       (retrieveSeriesMetadataAsync id example_getImageId True ''1.2.3'' JUndefined JUndefined JUndefined
          False False
          (Fulfilled ([summary_of (example_instance ''S1'' ''S1.1'' 1), summary_of (example_instance ''S2'' ''S2.1'' 1)],
                      [Inr [example_instance ''S1'' ''S1.1'' 1], Inl (TransportError ''S2'')]))
          [1, 0] example_state))) =
     [AddSeriesMetadata [summary_of (example_instance ''S1'' ''S1.1'' 1), summary_of (example_instance ''S2'' ''S2.1'' 1)] False,
      AddInstances (committed id example_getImageId example_config [example_instance ''S1'' ''S1.1'' 1]) False]"
  using lazy_summaries_before_series_commits
      [of example_state id example_getImageId True "''1.2.3''" JUndefined JUndefined JUndefined False False
          "[summary_of (example_instance ''S1'' ''S1.1'' 1), summary_of (example_instance ''S2'' ''S2.1'' 1)]"
          "[Inr [example_instance ''S1'' ''S1.1'' 1], Inl (TransportError ''S2'')]" "[1, 0]"]
  by (simp add: example_state_def summary_of_def example_instance_def)

subsection \<open>Lazy retrieval: the study identifier of the summaries\<close>

text \<open>
  C9. Under the lazy strategy the summaries are committed with \<^verbatim>\<open>StudyInstanceUID\<close> set to
  the requested study, whatever the listing returned for it, absent or not; the other
  attributes of each summary are what the listing returned.
\<close>

theorem lazy_summaries_carry_study_uid:
  fixes nd :: "'raw \<Rightarrow> dicom_instance" and g :: get_image_id and ps :: "(error + 'raw list) list"
    and found mic wc :: bool and uid :: string and f sc sf :: jsval and pre :: "series_summary list"
    and order :: "nat list" and s :: ds_state
  defines "run \<equiv> retrieveSeriesMetadataAsync nd g found uid f sc sf mic wc (Fulfilled (pre, ps)) order s"
  shows
  "AddSeriesMetadata (map (\<lambda>aSeries. aSeries\<lparr>StudyInstanceUID := Some uid\<rparr>) pre) mic
      \<in> set (emitted s (snd run))
   \<and> (\<forall>xs m. AddSeriesMetadata xs m \<in> set (emitted s (snd run)) \<longrightarrow>
        xs = map (\<lambda>aSeries. aSeries\<lparr>StudyInstanceUID := Some uid\<rparr>) pre
        \<and> (\<forall>x \<in> set xs. StudyInstanceUID x = Some uid)
        \<and> map SeriesInstanceUID xs = map SeriesInstanceUID pre)"
  by (auto simp: run_def async_run emitted_emit_all unit_events_no_summary comp_def)

theorem lazy_summaries_carry_study_uid_witness:
  "AddSeriesMetadata [(summary_of (example_instance ''S1'' ''S1.1'' 1))\<lparr>StudyInstanceUID := Some ''9.9''\<rparr>] False
     \<in> set (emitted example_state (snd
       (retrieveSeriesMetadataAsync id example_getImageId True ''9.9'' JUndefined JUndefined JUndefined
          False False
          (Fulfilled ([(summary_of (example_instance ''S1'' ''S1.1'' 1))\<lparr>StudyInstanceUID := None\<rparr>], [])) [] example_state)))
   \<and> StudyInstanceUID ((summary_of (example_instance ''S1'' ''S1.1'' 1))\<lparr>StudyInstanceUID := Some ''9.9''\<rparr>)
       = Some ''9.9''"
  using lazy_summaries_carry_study_uid
      [of "''9.9''" "[(summary_of (example_instance ''S1'' ''S1.1'' 1))\<lparr>StudyInstanceUID := None\<rparr>]" False
          example_state id example_getImageId True JUndefined JUndefined JUndefined False "[]" "[]"]
  by simp

subsection \<open>Eager retrieval: all or nothing\<close>

text \<open>
  C3. Under the eager strategy the outcome of the awaited \<^verbatim>\<open>retrieveStudyMetadata\<close> decides.
  When it is a rejection, which is what a failed fetch behind it gives, the call fails with
  the same error and has made no \<^verbatim>\<open>addSeriesMetadata\<close> and no \<^verbatim>\<open>addInstances\<close> call.
  When it is the list of the instances and no \<^verbatim>\<open>SeriesInstanceUID\<close> among them is a name
  that every object inherits (a UID, digits and dots, never is), the call succeeds and its
  commits are one \<^verbatim>\<open>addSeriesMetadata\<close> with exactly one summary per distinct
  \<^verbatim>\<open>SeriesInstanceUID\<close> among the instances, each built from the first instance of its
  series, followed by one \<^verbatim>\<open>addInstances\<close> per series; the instances committed are all the
  retrieved ones, each once and with its image identifier. When some \<^verbatim>\<open>SeriesInstanceUID\<close>
  is such a name the grouping loop throws, the call fails, and again nothing is committed.
\<close>

theorem eager_all_or_nothing:
  fixes nd :: "'raw \<Rightarrow> dicom_instance" and g :: get_image_id and raws :: "'raw list"
    and mic wc :: bool and uid :: string and f sc sf :: jsval and s :: ds_state and e :: error
  defines "run \<equiv> \<lambda>data. retrieveSeriesMetadataSync nd g uid f sc sf mic wc data s"
  shows
  "fst (run (Rejected e)) = Rejected e
   \<and> filter is_commit (emitted s (snd (run (Rejected e)))) = []
   \<and> ((\<forall>x \<in> set (map nd raws). \<not> inherited_property (SeriesInstanceUID x)) \<longrightarrow>
        fst (run (Fulfilled raws)) = Fulfilled ()
        \<and> (\<exists>summaries groups.
             filter is_commit (emitted s (snd (run (Fulfilled raws))))
               = AddSeriesMetadata summaries mic # map (\<lambda>xs. AddInstances xs mic) groups
             \<and> distinct (map SeriesInstanceUID summaries)
             \<and> set (map SeriesInstanceUID summaries) = SeriesInstanceUID ` set (map nd raws)
             \<and> (\<forall>v \<in> set summaries.
                   map_option summary_of
                     (find (\<lambda>x. SeriesInstanceUID x = SeriesInstanceUID v) (map nd raws)) = Some v)
             \<and> length groups = length summaries
             \<and> mset (concat groups) = mset (map (withImageId g (dicomWebConfig s)) (map nd raws))))
   \<and> ((\<exists>x \<in> set (map nd raws). inherited_property (SeriesInstanceUID x)) \<longrightarrow>
        fst (run (Fulfilled raws)) = Rejected (TypeError ''instancesPerSeries[...].push is not a function'')
        \<and> filter is_commit (emitted s (snd (run (Fulfilled raws)))) = [])"
proof -
  let ?s1 = "emit (RetrieveStudyMetadata (wadoHeaders s) uid False f sc sf wc) s"
  let ?xs = "map nd raws"
  have fail: "fst (run (Rejected e)) = Rejected e
     \<and> filter is_commit (emitted s (snd (run (Rejected e)))) = []"
    by (simp add: run_def sync_failed emitted_emit_all)
  have thrown: "(\<exists>x \<in> set ?xs. inherited_property (SeriesInstanceUID x)) \<longrightarrow>
        fst (run (Fulfilled raws)) = Rejected (TypeError ''instancesPerSeries[...].push is not a function'')
        \<and> filter is_commit (emitted s (snd (run (Fulfilled raws)))) = []"
  proof
    assume "\<exists>x \<in> set ?xs. inherited_property (SeriesInstanceUID x)"
    from sync_throws [OF this, of g uid f sc sf mic wc s] obtain n where
      n: "run (Fulfilled raws) =
        (Rejected (TypeError ''instancesPerSeries[...].push is not a function''),
         emit_all ([RetrieveStudyMetadata (wadoHeaders s) uid False f sc sf wc]
           @ map (registration g (dicomWebConfig s) uid) (take n ?xs)) s)"
      unfolding run_def by blast
    have "filter is_commit (map (registration g (dicomWebConfig s) uid) (take n ?xs)) = []"
      by (simp add: filter_empty_conv registration_def)
    then show "fst (run (Fulfilled raws)) = Rejected (TypeError ''instancesPerSeries[...].push is not a function'')
        \<and> filter is_commit (emitted s (snd (run (Fulfilled raws)))) = []"
      unfolding n by (simp only: fst_conv snd_conv emitted_emit_all filter_append) simp
  qed
  have ok: "(\<forall>x \<in> set ?xs. \<not> inherited_property (SeriesInstanceUID x)) \<longrightarrow>
        fst (run (Fulfilled raws)) = Fulfilled ()
        \<and> (\<exists>summaries groups.
             filter is_commit (emitted s (snd (run (Fulfilled raws))))
               = AddSeriesMetadata summaries mic # map (\<lambda>xs. AddInstances xs mic) groups
             \<and> distinct (map SeriesInstanceUID summaries)
             \<and> set (map SeriesInstanceUID summaries) = SeriesInstanceUID ` set (map nd raws)
             \<and> (\<forall>v \<in> set summaries.
                   map_option summary_of
                     (find (\<lambda>x. SeriesInstanceUID x = SeriesInstanceUID v) (map nd raws)) = Some v)
             \<and> length groups = length summaries
             \<and> mset (concat groups) = mset (map (withImageId g (dicomWebConfig s)) (map nd raws)))"
  proof
    assume H: "\<forall>x \<in> set ?xs. \<not> inherited_property (SeriesInstanceUID x)"
    obtain summ per s2 where G: "grouped g uid ?xs [] [] ?s1 = (summ, per, s2)"
      by (cases "grouped g uid ?xs [] [] ?s1") auto
    note gr = sync_grouped [OF G]
    have cfg: "dicomWebConfig ?s1 = dicomWebConfig s"
      by (simp add: emit_is_emit_all emit_all_fields)
    let ?summaries = "obj_values summ"
    let ?groups = "map (per_lookup per) (own_keys per)"
    have run: "run (Fulfilled raws) =
       (Fulfilled (),
        emit_all
          ([RetrieveStudyMetadata (wadoHeaders s) uid False f sc sf wc]
           @ map (registration g (dicomWebConfig s) uid) ?xs
           @ [AddSeriesMetadata ?summaries mic]
           @ map (\<lambda>k. AddInstances (per_lookup per k) mic) (own_keys per)) s)"
      unfolding run_def by (rule sync_run [OF H G])
    have commits: "filter is_commit (emitted s (snd (run (Fulfilled raws))))
            = AddSeriesMetadata ?summaries mic # map (\<lambda>xs. AddInstances xs mic) ?groups"
      by (simp add: run emitted_emit_all filter_commit_registrations filter_commit_series comp_def)
    have val: "\<exists>v. obj_get summ k = Some v \<and> SeriesInstanceUID v = k" if "k \<in> set (own_keys summ)" for k
    proof -
      from that have "k \<in> SeriesInstanceUID ` set ?xs"
        by (simp only: set_own_keys gr(3))
      from find_series [OF this] show ?thesis
        by (auto simp: gr(5))
    qed
    have keys: "map SeriesInstanceUID ?summaries = own_keys summ"
      unfolding obj_values_def by (rule map_key_values) (rule val)
    have d: "distinct (map SeriesInstanceUID ?summaries)"
      by (simp only: keys distinct_own_keys gr(1))
    have st: "set (map SeriesInstanceUID ?summaries) = SeriesInstanceUID ` set ?xs"
      by (simp only: keys set_own_keys gr(3))
    have first: "\<forall>v \<in> set ?summaries.
        map_option summary_of (find (\<lambda>x. SeriesInstanceUID x = SeriesInstanceUID v) ?xs) = Some v"
    proof
      fix v assume "v \<in> set ?summaries"
      then obtain k where k: "k \<in> set (own_keys summ)" and v: "obj_get summ k = Some v"
        by (auto simp: obj_values_def split: option.splits)
      from val [OF k] v have "SeriesInstanceUID v = k" by simp
      with v show "map_option summary_of (find (\<lambda>x. SeriesInstanceUID x = SeriesInstanceUID v) ?xs) = Some v"
        by (simp add: gr(5))
    qed
    have "length (own_keys per) = card (fst ` set per)"
      using gr(2) by (metis distinct_card distinct_own_keys set_own_keys)
    moreover have "length (own_keys summ) = card (fst ` set summ)"
      using gr(1) by (metis distinct_card distinct_own_keys set_own_keys)
    ultimately have lens: "length (own_keys per) = card (fst ` set per)"
        "length (own_keys summ) = card (fst ` set summ)"
      by simp_all
    have len: "length ?groups = length ?summaries"
      using lens keys by (metis gr(3) gr(4) length_map)
    have "mset (concat (map (\<lambda>k. filter (\<lambda>x. SeriesInstanceUID x = k)
                   (map (withImageId g (dicomWebConfig s)) ?xs)) (own_keys per)))
          = mset (map (withImageId g (dicomWebConfig s)) ?xs)"
    proof (rule mset_concat_groups)
      show "distinct (own_keys per)" by (simp only: distinct_own_keys gr(2))
      show "SeriesInstanceUID ` set (map (withImageId g (dicomWebConfig s)) ?xs) \<subseteq> set (own_keys per)"
        by (auto simp: set_own_keys gr(4))
    qed
    moreover have "per_lookup per = (\<lambda>k. filter (\<lambda>x. SeriesInstanceUID x = k)
                   (map (withImageId g (dicomWebConfig s)) ?xs))"
      by (rule ext) (simp only: gr(6) cfg)
    ultimately have ms: "mset (concat ?groups) = mset (map (withImageId g (dicomWebConfig s)) ?xs)"
      by (simp only:)
    have res: "fst (run (Fulfilled raws)) = Fulfilled ()"
      by (simp add: run)
    from commits d st first len ms have
      "\<exists>summaries groups.
          filter is_commit (emitted s (snd (run (Fulfilled raws))))
            = AddSeriesMetadata summaries mic # map (\<lambda>xs. AddInstances xs mic) groups
          \<and> distinct (map SeriesInstanceUID summaries)
          \<and> set (map SeriesInstanceUID summaries) = SeriesInstanceUID ` set (map nd raws)
          \<and> (\<forall>v \<in> set summaries.
                map_option summary_of
                  (find (\<lambda>x. SeriesInstanceUID x = SeriesInstanceUID v) (map nd raws)) = Some v)
          \<and> length groups = length summaries
          \<and> mset (concat groups) = mset (map (withImageId g (dicomWebConfig s)) (map nd raws))"
      by blast
    with res show "fst (run (Fulfilled raws)) = Fulfilled ()
        \<and> (\<exists>summaries groups.
             filter is_commit (emitted s (snd (run (Fulfilled raws))))
               = AddSeriesMetadata summaries mic # map (\<lambda>xs. AddInstances xs mic) groups
             \<and> distinct (map SeriesInstanceUID summaries)
             \<and> set (map SeriesInstanceUID summaries) = SeriesInstanceUID ` set (map nd raws)
             \<and> (\<forall>v \<in> set summaries.
                   map_option summary_of
                     (find (\<lambda>x. SeriesInstanceUID x = SeriesInstanceUID v) (map nd raws)) = Some v)
             \<and> length groups = length summaries
             \<and> mset (concat groups) = mset (map (withImageId g (dicomWebConfig s)) (map nd raws)))"
      by blast
  qed
  from fail thrown ok show ?thesis by blast
qed

theorem eager_all_or_nothing_witness:
  "\<not> inherited_property ''S1'' \<and> \<not> inherited_property ''S2''
   \<and> filter is_commit (emitted example_state (snd
      (retrieveSeriesMetadataSync id example_getImageId ''1.2.3'' JUndefined JUndefined JUndefined
         False False (Rejected (TransportError ''503'')) example_state))) = []
   \<and> fst (retrieveSeriesMetadataSync id example_getImageId ''1.2.3'' JUndefined JUndefined JUndefined
         False False
         (Fulfilled [example_instance ''S1'' ''S1.1'' 1, example_instance ''S2'' ''S2.1'' 1,
                     example_instance ''S1'' ''S1.2'' 1]) example_state) = Fulfilled ()
   \<and> fst (retrieveSeriesMetadataSync id example_getImageId ''1.2.3'' JUndefined JUndefined JUndefined
         False False
         (Fulfilled [example_instance ''S1'' ''S1.1'' 1, example_instance ''constructor'' ''C.1'' 1])
         example_state) = Rejected (TypeError ''instancesPerSeries[...].push is not a function'')"
proof -
  have c: "\<not> inherited_property ''S1'' \<and> \<not> inherited_property ''S2''"
    by (simp add: inherited_property_def)
  have a: "\<forall>x \<in> set (map id [example_instance ''S1'' ''S1.1'' 1, example_instance ''S2'' ''S2.1'' 1,
                        example_instance ''S1'' ''S1.2'' 1]).
       \<not> inherited_property (SeriesInstanceUID x)"
    by (simp add: example_instance_def inherited_property_def)
  have b: "\<exists>x \<in> set (map id [example_instance ''S1'' ''S1.1'' 1, example_instance ''constructor'' ''C.1'' 1]).
       inherited_property (SeriesInstanceUID x)"
    by (simp add: example_instance_def inherited_property_def)
  note t1 = eager_all_or_nothing
      [where nd = id and g = example_getImageId and uid = "''1.2.3''" and f = JUndefined
         and sc = JUndefined and sf = JUndefined and mic = False and wc = False
         and e = "TransportError ''503''" and s = example_state
         and raws = "[example_instance ''S1'' ''S1.1'' 1, example_instance ''S2'' ''S2.1'' 1,
            example_instance ''S1'' ''S1.2'' 1]"]
  note t2 = eager_all_or_nothing
      [where nd = id and g = example_getImageId and uid = "''1.2.3''" and f = JUndefined
         and sc = JUndefined and sf = JUndefined and mic = False and wc = False
         and e = "TransportError ''503''" and s = example_state
         and raws = "[example_instance ''S1'' ''S1.1'' 1, example_instance ''constructor'' ''C.1'' 1]"]
  note p1 = t1 [THEN conjunct2, THEN conjunct1]
  note p2 = t1 [THEN conjunct2, THEN conjunct2, THEN conjunct1, THEN mp, OF a, THEN conjunct1]
  note p3 = t2 [THEN conjunct2, THEN conjunct2, THEN conjunct2, THEN mp, OF b, THEN conjunct1]
  from c p1 p2 p3 show ?thesis by (simp only: simp_thms)
qed

subsection \<open>Image identifiers are assigned before the commit\<close>

text \<open>
  C6. In both strategies, for every outcome of the fetches and every order of settlement:
  each \<^verbatim>\<open>addInstances\<close> call of the retrieval commits instances that carry an image
  identifier, and for each of them \<^verbatim>\<open>addImageIdToUIDs\<close> has been called earlier in the
  same retrieval with that identifier and the study, series and SOP instance identifiers of
  the instance. The identifier is the one \<^verbatim>\<open>getImageId\<close> computes, without a frame, for the
  instance as it was before the assignment.
\<close>

theorem imageId_assigned_before_commit:
  fixes nd :: "'raw \<Rightarrow> dicom_instance" and g :: get_image_id
  defines "eager \<equiv> \<lambda>uid f sc sf mic wc data s.
              emitted s (snd (retrieveSeriesMetadataSync nd g uid f sc sf mic wc data s))"
      and "lazy \<equiv> \<lambda>found uid f sc sf mic wc fetched order s.
              emitted s (snd (retrieveSeriesMetadataAsync nd g found uid f sc sf mic wc fetched order s))"
  shows
  "commits_registered uid [] (eager uid f sc sf mic wc data s)
   \<and> commits_registered uid [] (lazy found uid f sc sf mic wc fetched order s)
   \<and> (\<forall>xs m. AddInstances xs m \<in> set (eager uid f sc sf mic wc data s)
                                  \<union> set (lazy found uid f sc sf mic wc fetched order s) \<longrightarrow>
        (\<forall>x \<in> set xs. \<exists>y. x = withImageId g (dicomWebConfig s) y))"
  unfolding eager_def lazy_def
  using sync_commits_registered [of uid s nd g f sc sf mic wc data]
    async_commits_registered [of uid s nd g found f sc sf mic wc fetched order]
    sync_commit_payload [of _ _ s nd g uid f sc sf mic wc data]
    async_commit_payload [of _ _ s nd g found uid f sc sf mic wc fetched order]
  by blast

theorem imageId_assigned_before_commit_witness:
  "commits_registered ''1.2.3'' []
     (emitted example_state (snd
        (retrieveSeriesMetadataSync id example_getImageId ''1.2.3'' JUndefined JUndefined JUndefined
           False False
           (Fulfilled [example_instance ''S1'' ''S1.1'' 1, example_instance ''S2'' ''S2.1'' 1])
           example_state)))
   \<and> commits_registered ''1.2.3'' []
     (emitted example_state (snd
        (retrieveSeriesMetadataAsync id example_getImageId True ''1.2.3'' JUndefined JUndefined JUndefined
           False False
           (Fulfilled ([], [Inr [example_instance ''S1'' ''S1.1'' 1], Inl (TransportError ''S2'')]))
           [1, 0] example_state)))"
  using imageId_assigned_before_commit
      [where uid = "''1.2.3''" and nd = id and g = example_getImageId and f = JUndefined
         and sc = JUndefined and sf = JUndefined and mic = False and wc = False
         and data = "Fulfilled [example_instance ''S1'' ''S1.1'' 1, example_instance ''S2'' ''S2.1'' 1]"
         and s = example_state and found = True
         and fetched = "Fulfilled ([], [Inr [example_instance ''S1'' ''S1.1'' 1], Inl (TransportError ''S2'')])"
         and order = "[1, 0]"]
  by blast

subsection \<open>The required study identifier\<close>

text \<open>
  C5. \<^verbatim>\<open>retrieve.series.metadata\<close> checks \<^verbatim>\<open>!StudyInstanceUID\<close> before anything leaves the
  module. When the identifier is absent (\<^verbatim>\<open>undefined\<close>, or the empty string, which is as
  falsy) the call fails with the configuration error and has issued no call at all: no
  search, no retrieve, no bulk-data call, no commit. When the identifier is there the check
  lets the call through: its first event is the \<^verbatim>\<open>retrieveStudyMetadata\<close> call, and the
  call fails with a configuration error only if a collaborator answers with one.
\<close>

theorem series_metadata_requires_study:
  fixes nd :: "'raw \<Rightarrow> dicom_instance"
  shows
  "(\<not> truthy_str (reqStudyInstanceUID req) \<longrightarrow>
      fst (series_metadata nd g env req s)
        = Rejected (ConfigurationError ''Unable to query for SeriesMetadata without StudyInstanceUID'')
      \<and> emitted s (snd (series_metadata nd g env req s)) = [])
   \<and> (truthy_str (reqStudyInstanceUID req) \<longrightarrow>
      (\<exists>h u l a b c w rest.
          emitted s (snd (series_metadata nd g env req s)) = RetrieveStudyMetadata h u l a b c w # rest)
      \<and> (\<forall>m. fst (series_metadata nd g env req s) = Rejected (ConfigurationError m) \<longrightarrow>
            studyData env = Rejected (ConfigurationError m)
            \<or> seriesData env = Rejected (ConfigurationError m)))"
proof (cases "reqStudyInstanceUID req")
  case None
  then show ?thesis
    by (simp add: series_metadata_def Let_def emitted_same_trace_Nil setWadoHeaders_fields)
next
  case (Some uid)
  show ?thesis
  proof (cases "uid = []")
    case True
    with Some show ?thesis
      by (simp add: series_metadata_def Let_def emitted_same_trace_Nil setWadoHeaders_fields)
  next
    case False
    let ?s1 = "setWadoHeaders (authorizationHeader env) s"
    let ?mic = "case reqMadeInClient req of None \<Rightarrow> False | Some b \<Rightarrow> b"
    let ?wc = "case reqWithCredentials req of None \<Rightarrow> withCredentials (webConfig s) | Some b \<Rightarrow> b"
    show ?thesis
    proof (cases "enableStudyLazyLoad (dicomWebConfig s)")
      case True
      have eq: "series_metadata nd g env req s =
          retrieveSeriesMetadataAsync nd g (studyFound env) uid (reqFilters req) (reqSortCriteria req)
            (reqSortFunction req) ?mic ?wc (seriesData env) (settleOrder env) ?s1"
        using Some False True by (simp add: series_metadata_def Let_def setWadoHeaders_fields)
      from async_first_event [of nd g "studyFound env" uid "reqFilters req" "reqSortCriteria req"
          "reqSortFunction req" ?mic ?wc "seriesData env" "settleOrder env" ?s1]
      obtain rest where "snd (series_metadata nd g env req s) =
          emit_all (RetrieveStudyMetadata (wadoHeaders ?s1) uid True (reqFilters req)
            (reqSortCriteria req) (reqSortFunction req) ?wc # rest) ?s1"
        unfolding eq by (metis snd_conv)
      then have "emitted s (snd (series_metadata nd g env req s)) =
          RetrieveStudyMetadata (wadoHeaders ?s1) uid True (reqFilters req)
            (reqSortCriteria req) (reqSortFunction req) ?wc # rest"
        by (simp add: emitted_same_trace setWadoHeaders_fields)
      moreover have "\<forall>m. fst (series_metadata nd g env req s) = Rejected (ConfigurationError m) \<longrightarrow>
            seriesData env = Rejected (ConfigurationError m)"
        unfolding eq using async_result by blast
      ultimately show ?thesis using Some False by auto
    next
      case notlazy: False
      have eq: "series_metadata nd g env req s =
          retrieveSeriesMetadataSync nd g uid (reqFilters req) (reqSortCriteria req)
            (reqSortFunction req) ?mic ?wc (studyData env) ?s1"
        using Some False notlazy by (simp add: series_metadata_def Let_def setWadoHeaders_fields)
      from sync_first_event [of nd g uid "reqFilters req" "reqSortCriteria req"
          "reqSortFunction req" ?mic ?wc "studyData env" ?s1]
      obtain rest where "snd (series_metadata nd g env req s) =
          emit_all (RetrieveStudyMetadata (wadoHeaders ?s1) uid False (reqFilters req)
            (reqSortCriteria req) (reqSortFunction req) ?wc # rest) ?s1"
        unfolding eq by (metis snd_conv)
      then have "emitted s (snd (series_metadata nd g env req s)) =
          RetrieveStudyMetadata (wadoHeaders ?s1) uid False (reqFilters req)
            (reqSortCriteria req) (reqSortFunction req) ?wc # rest"
        by (simp add: emitted_same_trace setWadoHeaders_fields)
      moreover have "\<forall>m. fst (series_metadata nd g env req s) = Rejected (ConfigurationError m) \<longrightarrow>
            studyData env = Rejected (ConfigurationError m)"
        unfolding eq using sync_result by blast
      ultimately show ?thesis using Some False by auto
    qed
  qed
qed

theorem series_metadata_requires_study_witness:
  "\<not> truthy_str (reqStudyInstanceUID (example_request None))
   \<and> fst (series_metadata id example_getImageId (example_answers None) (example_request None) example_state)
        = Rejected (ConfigurationError ''Unable to query for SeriesMetadata without StudyInstanceUID'')
   \<and> emitted example_state
        (snd (series_metadata id example_getImageId (example_answers None) (example_request None) example_state)) = []
   \<and> truthy_str (reqStudyInstanceUID (example_request (Some ''1.2.3'')))
   \<and> emitted example_state
        (snd (series_metadata id example_getImageId (example_answers None) (example_request (Some ''1.2.3'')) example_state)) \<noteq> []"
  using series_metadata_requires_study
      [where nd = id and g = example_getImageId and env = "example_answers None"
         and req = "example_request None" and s = example_state]
    series_metadata_requires_study
      [where nd = id and g = example_getImageId and env = "example_answers None"
         and req = "example_request (Some ''1.2.3'')" and s = example_state]
  by (auto simp: example_request_def)

subsection \<open>Bulk-data resolution\<close>

lemma call_retrieveBulkData_twice:
  fixes v :: attr_value and owner :: "string option" and val1 val2 :: jsval and s :: ds_state
  assumes "retrieveBulkData v"
  shows "emitted s (snd (snd (call_retrieveBulkData owner (Fulfilled val2)
            (snd (call_retrieveBulkData owner (Fulfilled val1) (v, s)))))) =
        [RetrieveBulkData (qidoHeaders s)
           \<lparr>multipart = False, oBulkDataURI = BulkDataURI v, oStudyInstanceUID = owner\<rparr>,
         RetrieveBulkData (qidoHeaders s)
           \<lparr>multipart = False, oBulkDataURI = BulkDataURI v, oStudyInstanceUID = owner\<rparr>]"
  using assms
  by (simp add: call_retrieveBulkData_fulfilled emit_all_fields emit_all_emit_all emitted_emit_all)

text \<open>
  C1. A second invocation of the method of a deferred attribute value should issue no
  further \<^verbatim>\<open>retrieveBulkData\<close> call and return the cached value: the comment above the
  guard says that once \<^verbatim>\<open>value.Value\<close> holds the value that was read it need not be read
  again, and the method stores what it reads there. The method itself never looks at
  \<^verbatim>\<open>value.Value\<close>. On the instance that the lazy strategy naturalizes from the example,
  whose attribute has a bulk-data reference and no inline value: the method is attached;
  the first invocation issues one call for the owning study, returns the first element of
  the response and stores it on the attribute; the second invocation issues a second call,
  and when the transport then answers with something else, returns that and not the stored
  value.
\<close>

theorem retrieveBulkData_refetches_on_second_call:
  "map_of (attrs (addRetrieveBulkData id example_bulk_instance)) ''EncapsulatedDocument''
     = Some (example_attribute\<lparr>retrieveBulkData := True\<rparr>)
   \<and> fst (invoke_retrieveBulkData ''EncapsulatedDocument'' (Fulfilled (JArr [JBuffer [1, 2, 3]]))
           (addRetrieveBulkData id example_bulk_instance, example_state))
     = Fulfilled (JBuffer [1, 2, 3])
   \<and> map_of (attrs (fst (snd
         (invoke_retrieveBulkData ''EncapsulatedDocument'' (Fulfilled (JArr [JBuffer [1, 2, 3]]))
            (addRetrieveBulkData id example_bulk_instance, example_state))))) ''EncapsulatedDocument''
     = Some (example_attribute\<lparr>Value := JBuffer [1, 2, 3], retrieveBulkData := True\<rparr>)
   \<and> emitted example_state (snd (snd
        (invoke_retrieveBulkData ''EncapsulatedDocument'' (Fulfilled (JArr [JBuffer [1, 2, 3]]))
           (snd (invoke_retrieveBulkData ''EncapsulatedDocument'' (Fulfilled (JArr [JBuffer [1, 2, 3]]))
              (addRetrieveBulkData id example_bulk_instance, example_state))))))
     = [RetrieveBulkData (Some [(''Authorization'', ''Bearer old'')])
          \<lparr>multipart = False, oBulkDataURI = Some ''https://pacs/wado/studies/1.2.3/bulkdata/1'',
           oStudyInstanceUID = Some ''1.2.3''\<rparr>,
        RetrieveBulkData (Some [(''Authorization'', ''Bearer old'')])
          \<lparr>multipart = False, oBulkDataURI = Some ''https://pacs/wado/studies/1.2.3/bulkdata/1'',
           oStudyInstanceUID = Some ''1.2.3''\<rparr>]
   \<and> fst (invoke_retrieveBulkData ''EncapsulatedDocument'' (Fulfilled (JArr [JBuffer [7]]))
           (snd (invoke_retrieveBulkData ''EncapsulatedDocument'' (Fulfilled (JArr [JBuffer [1, 2, 3]]))
              (addRetrieveBulkData id example_bulk_instance, example_state))))
     = Fulfilled (JBuffer [7])"
  by (simp add: invoke_retrieveBulkData_def call_retrieveBulkData_def addRetrieveBulkData_def
      attachRetrieveBulkData_def example_bulk_instance_def example_instance_def
      example_attribute_def first_or_undefined_def Let_def emit_def emitted_def example_state_def)

subsection \<open>Authorization headers per call\<close>

text \<open>
  C7, as the specification states it: every call, the deferred bulk-data call included,
  goes out with the header the provider gives at call time. After the provider has moved to
  a new header, which a store operation picks up, the bulk-data method still sends the
  header that the QIDO client carried before, since it does not ask the provider; and a call
  made while the provider answers with nothing goes out with the previous header.
\<close>

theorem headers_stale_counterexample:
  "emitted example_state
     (snd (store_dicom example_encode (Some [(''Authorization'', ''Bearer new'')]) example_dataset
             (Fulfilled ()) example_state))
     = [StoreInstances (Some [(''Authorization'', ''Bearer new'')]) [[68, 73, 67, 77]]]
   \<and> emitted
     (snd (store_dicom example_encode (Some [(''Authorization'', ''Bearer new'')]) example_dataset
             (Fulfilled ()) example_state))
     (snd (snd (invoke_retrieveBulkData ''EncapsulatedDocument'' (Fulfilled (JArr [JBuffer [1, 2, 3]]))
        (addRetrieveBulkData id example_bulk_instance,
         snd (store_dicom example_encode (Some [(''Authorization'', ''Bearer new'')]) example_dataset
                (Fulfilled ()) example_state)))))
     = [RetrieveBulkData (Some [(''Authorization'', ''Bearer old'')])
          \<lparr>multipart = False, oBulkDataURI = Some ''https://pacs/wado/studies/1.2.3/bulkdata/1'',
           oStudyInstanceUID = Some ''1.2.3''\<rparr>]
   \<and> emitted example_state (snd (query_series_search id None ''1.2.3'' (Fulfilled JNull) example_state))
     = [SeriesInStudy (Some [(''Authorization'', ''Bearer old'')]) ''1.2.3'']"
  by (simp add: store_dicom_def example_dataset_def example_encode_def invoke_retrieveBulkData_def
      call_retrieveBulkData_def addRetrieveBulkData_def attachRetrieveBulkData_def
      example_bulk_instance_def example_instance_def example_attribute_def
      query_series_search_def setWadoHeaders_def setQidoHeaders_def
      Let_def emit_def emitted_def example_state_def)

text \<open>
  C7, amended. The three searches, \<^verbatim>\<open>store.dicom\<close> and \<^verbatim>\<open>retrieve.series.metadata\<close>
  ask the provider at call time and, when the answer is truthy, put it on the client they
  use before they issue their transport call, which therefore carries it; a falsy answer
  leaves the client with the headers it had. A search issues its call in every case;
  \<^verbatim>\<open>store.dicom\<close> issues its call when the dataset has its file meta information and the
  encoding succeeds, and no call otherwise, the client carrying the header all the same;
  \<^verbatim>\<open>retrieve.series.metadata\<close> issues its call when the study identifier is there.
  (Nothing is said about the bulk-data method.)
\<close>

theorem headers_applied_per_call:
  fixes nd :: "'raw \<Rightarrow> dicom_instance" and processResults :: "'r \<Rightarrow> 'p"
    and processSeriesResults :: "'r2 \<Rightarrow> 'p2" and encode :: "meta_header \<Rightarrow> 'd dataset \<Rightarrow> error + nat list"
  shows
  "emitted s (snd (query_studies_search mapParams processResults hdrs origParams results s)) =
      [QidoSearch (effective_headers hdrs (qidoHeaders s)) JUndefined JUndefined
         (JObj (rest_of_params
            (mapParams origParams (supportsFuzzyMatching (dicomWebConfig s))
               (supportsWildcard (dicomWebConfig s)))))]
   \<and> emitted s (snd (query_series_search processSeriesResults hdrs studyUID sresults s)) =
      [SeriesInStudy (effective_headers hdrs (qidoHeaders s)) studyUID]
   \<and> emitted s (snd (query_instances_search hdrs studyInstanceUid queryParameters iresults s)) =
      [QidoSearch (effective_headers hdrs (qidoHeaders s)) studyInstanceUid JNull queryParameters]
   \<and> (meta ds = Some m \<and> FileMetaInformationVersion m = Some version
        \<and> encode (store_header version ds) ds = Inr buffer \<longrightarrow>
        emitted s (snd (store_dicom encode hdrs ds stored s)) =
          [StoreInstances (effective_headers hdrs (wadoHeaders s)) [buffer]])
   \<and> (\<forall>e \<in> set (emitted s (snd (store_dicom encode hdrs ds stored s))).
        \<exists>b. e = StoreInstances (effective_headers hdrs (wadoHeaders s)) [b])
   \<and> wadoHeaders (snd (store_dicom encode hdrs ds stored s)) = effective_headers hdrs (wadoHeaders s)
   \<and> (reqStudyInstanceUID req = Some uid \<and> uid \<noteq> [] \<longrightarrow>
        (\<exists>rest. emitted s (snd (series_metadata nd g env req s)) =
           RetrieveStudyMetadata (effective_headers (authorizationHeader env) (wadoHeaders s))
             uid (enableStudyLazyLoad (dicomWebConfig s))
             (reqFilters req) (reqSortCriteria req) (reqSortFunction req)
             (case reqWithCredentials req of None \<Rightarrow> withCredentials (webConfig s) | Some b \<Rightarrow> b) # rest))
   \<and> effective_headers (Some h) previous = Some h
   \<and> effective_headers None previous = previous"
proof -
  have searches:
    "emitted s (snd (query_studies_search mapParams processResults hdrs origParams results s)) =
      [QidoSearch (effective_headers hdrs (qidoHeaders s)) JUndefined JUndefined
         (JObj (rest_of_params
            (mapParams origParams (supportsFuzzyMatching (dicomWebConfig s))
               (supportsWildcard (dicomWebConfig s)))))]"
    "emitted s (snd (query_series_search processSeriesResults hdrs studyUID sresults s)) =
      [SeriesInStudy (effective_headers hdrs (qidoHeaders s)) studyUID]"
    "emitted s (snd (query_instances_search hdrs studyInstanceUid queryParameters iresults s)) =
      [QidoSearch (effective_headers hdrs (qidoHeaders s)) studyInstanceUid JNull queryParameters]"
    by (simp_all add: query_studies_search_def query_series_search_def query_instances_search_def
        Let_def emit_is_emit_all emitted_same_trace setQidoHeaders_fields effective_headers_def)
  have store_ok: "meta ds = Some m \<and> FileMetaInformationVersion m = Some version
        \<and> encode (store_header version ds) ds = Inr buffer \<longrightarrow>
        emitted s (snd (store_dicom encode hdrs ds stored s)) =
          [StoreInstances (effective_headers hdrs (wadoHeaders s)) [buffer]]"
    by (simp add: store_dicom_def Let_def emit_is_emit_all emitted_same_trace setWadoHeaders_fields
        effective_headers_def)
  have store_all: "\<forall>e \<in> set (emitted s (snd (store_dicom encode hdrs ds stored s))).
        \<exists>b. e = StoreInstances (effective_headers hdrs (wadoHeaders s)) [b]"
    by (simp add: store_dicom_def Let_def emit_is_emit_all emitted_same_trace
        emitted_same_trace_Nil setWadoHeaders_fields effective_headers_def
        split: option.splits sum.splits)
  have store_hdr: "wadoHeaders (snd (store_dicom encode hdrs ds stored s))
      = effective_headers hdrs (wadoHeaders s)"
    by (simp add: store_dicom_def Let_def emit_is_emit_all emit_all_fields setWadoHeaders_fields
        effective_headers_def split: option.splits sum.splits)
  have meta: "reqStudyInstanceUID req = Some uid \<and> uid \<noteq> [] \<longrightarrow>
        (\<exists>rest. emitted s (snd (series_metadata nd g env req s)) =
           RetrieveStudyMetadata (effective_headers (authorizationHeader env) (wadoHeaders s))
             uid (enableStudyLazyLoad (dicomWebConfig s))
             (reqFilters req) (reqSortCriteria req) (reqSortFunction req)
             (case reqWithCredentials req of None \<Rightarrow> withCredentials (webConfig s) | Some b \<Rightarrow> b) # rest)"
    using series_metadata_first_event [of req uid s nd g env]
    by (simp add: effective_headers_def)
  have eff: "effective_headers (Some h) previous = Some h" "effective_headers None previous = previous"
    by (simp_all add: effective_headers_def)
  from searches store_ok store_all store_hdr meta eff show ?thesis by blast
qed

theorem headers_applied_per_call_witness:
  "reqStudyInstanceUID (example_request (Some ''1.2.3'')) = Some ''1.2.3'' \<and> ''1.2.3'' \<noteq> []
   \<and> (\<exists>rest. emitted example_state (snd (series_metadata id example_getImageId
          (example_answers (Some [(''Authorization'', ''Bearer new'')]))
          (example_request (Some ''1.2.3'')) example_state)) =
        RetrieveStudyMetadata (Some [(''Authorization'', ''Bearer new'')]) ''1.2.3'' True
          JUndefined JUndefined JUndefined False # rest)
   \<and> meta example_dataset = Some \<lparr>FileMetaInformationVersion = Some (JArr [JNum 0, JNum 1])\<rparr>
   \<and> example_encode (store_header (JArr [JNum 0, JNum 1]) example_dataset) example_dataset
        = Inr [68, 73, 67, 77]
   \<and> emitted example_state
        (snd (store_dicom example_encode (Some [(''Authorization'', ''Bearer new'')]) example_dataset
                (Fulfilled ()) example_state))
      = [StoreInstances (Some [(''Authorization'', ''Bearer new'')]) [[68, 73, 67, 77]]]"
proof -
  have a: "reqStudyInstanceUID (example_request (Some ''1.2.3'')) = Some ''1.2.3'' \<and> ''1.2.3'' \<noteq> []"
    by (simp add: example_request_def)
  have b: "meta example_dataset = Some \<lparr>FileMetaInformationVersion = Some (JArr [JNum 0, JNum 1])\<rparr>"
    "FileMetaInformationVersion \<lparr>FileMetaInformationVersion = Some (JArr [JNum 0, JNum 1])\<rparr>
       = Some (JArr [JNum 0, JNum 1])"
    "example_encode (store_header (JArr [JNum 0, JNum 1]) example_dataset) example_dataset
        = Inr [68, 73, 67, 77]"
    by (simp_all add: example_dataset_def example_encode_def)
  note t = headers_applied_per_call
      [where req = "example_request (Some ''1.2.3'')" and uid = "''1.2.3''" and s = example_state
         and nd = id and g = example_getImageId
         and env = "example_answers (Some [(''Authorization'', ''Bearer new'')])"
         and ds = example_dataset and encode = example_encode
         and m = "\<lparr>FileMetaInformationVersion = Some (JArr [JNum 0, JNum 1])\<rparr>"
         and version = "JArr [JNum 0, JNum 1]" and buffer = "[68, 73, 67, 77]"
         and hdrs = "Some [(''Authorization'', ''Bearer new'')]" and stored = "Fulfilled ()"]
  note store = t [THEN conjunct2, THEN conjunct2, THEN conjunct2, THEN conjunct1]
  note series = t [THEN conjunct2, THEN conjunct2, THEN conjunct2, THEN conjunct2, THEN conjunct2,
      THEN conjunct2, THEN conjunct1]
  from store b have
    "emitted example_state
        (snd (store_dicom example_encode (Some [(''Authorization'', ''Bearer new'')]) example_dataset
                (Fulfilled ()) example_state))
      = [StoreInstances (Some [(''Authorization'', ''Bearer new'')]) [[68, 73, 67, 77]]]"
    by (simp add: effective_headers_def)
  moreover from series a have
    "\<exists>rest. emitted example_state (snd (series_metadata id example_getImageId
          (example_answers (Some [(''Authorization'', ''Bearer new'')]))
          (example_request (Some ''1.2.3'')) example_state)) =
        RetrieveStudyMetadata (Some [(''Authorization'', ''Bearer new'')]) ''1.2.3'' True
          JUndefined JUndefined JUndefined False # rest"
    by (simp add: effective_headers_def example_answers_def example_request_def example_state_def
        example_config_def)
  ultimately show ?thesis using a b by blast
qed

end
